theory Spec2Isabelle
  imports Main "HOL-Library.Sublist"
begin

section \<open>The terminal output manager of hatch (src/hatch/cli/terminal.py)\<close>

text \<open>
  The module has two stateful classes, \<^verbatim>\<open>BorrowedStatus\<close> (the status stack) and
  \<^verbatim>\<open>Terminal\<close>. Both write through one shared \<^verbatim>\<open>rich\<close> console object. The model
  threads that console explicitly as a \<open>world\<close>: the console's \<^verbatim>\<open>stderr\<close> flag and the
  trace of everything the program asked its collaborators to do, in order. Every method
  is a function from the object's state and the world to an optional exception, the new
  object state and the new world; the state that is returned beside an exception is the
  state the Python objects are left in when the exception propagates.
\<close>

subsection \<open>Values handed to the renderer\<close>

text \<open>
  A \<^verbatim>\<open>rich.style.Style\<close> object: the definition it was parsed from and its link. The
  attributes typed \<^verbatim>\<open>Style | str\<close> in the source are values of \<open>style\<close>.
\<close>

datatype rich_style = Style string "string option"

datatype style = Str string | Obj rich_style

text \<open>
  A \<^verbatim>\<open>rich.text.Text\<close> object. Its constructor does not keep the string it is given: it
  stores \<^verbatim>\<open>strip_control_codes(text)\<close>, the string without the characters bell,
  backspace, vertical tab, form feed and carriage return, and \<^verbatim>\<open>.plain\<close> reads that
  stored string back.
\<close>

record rich_text =
  plain :: string
  style_of :: style

definition STRIP_CONTROL_CODES :: "char list" where
  "STRIP_CONTROL_CODES = [CHR 0x07, CHR 0x08, CHR 0x0B, CHR 0x0C, CHR 0x0D]"

definition strip_control_codes :: "string \<Rightarrow> string" where
  "strip_control_codes txt = filter (\<lambda>c. c \<notin> set STRIP_CONTROL_CODES) txt"

definition Text :: "string \<Rightarrow> style \<Rightarrow> rich_text" where
  "Text txt st = \<lparr>plain = strip_control_codes txt, style_of = st\<rparr>"

definition control_free :: "string \<Rightarrow> bool" where
  "control_free txt = list_all (\<lambda>c. c \<notin> set STRIP_CONTROL_CODES) txt"

datatype renderable = RStr string | RText rich_text

datatype event =
    Print bool renderable "style option"
  | SpinnerStart rich_text string
  | SpinnerStop
  | Initializer
  | Finalizer

record world =
  stderr :: bool
  trace :: "event list"

datatype exn =
    IndexError
  | AttributeError
  | ValueError string
  | StyleSyntaxError string
  | RendererError

text \<open>
  What the module takes from outside itself: \<^verbatim>\<open>str.lower\<close>, \<^verbatim>\<open>Style.parse\<close> (\<open>Inl\<close> carries
  the text of the \<^verbatim>\<open>StyleSyntaxError\<close>), \<^verbatim>\<open>str(style)\<close>, \<^verbatim>\<open>bool(style)\<close>,
  \<^verbatim>\<open>platform.format_file_uri\<close>, \<^verbatim>\<open>textwrap.indent\<close>, and whether a given
  \<^verbatim>\<open>console.print\<close> call raises. All definitions below take these as a parameter, so
  every theorem holds for any behaviour of the collaborators. A \<open>string\<close> is the list of
  the characters of a Python \<^verbatim>\<open>str\<close>, so \<open>take 1\<close> and \<open>drop 1\<close> are the slices \<^verbatim>\<open>[:1]\<close> and
  \<^verbatim>\<open>[1:]\<close>; no definition or proof looks inside a character, except the concrete
  \<open>lower_char\<close> of the examples.
\<close>

record env =
  str_lower :: "string \<Rightarrow> string"
  style_parse :: "string \<Rightarrow> string + rich_style"
  style_str :: "rich_style \<Rightarrow> string"
  style_bool :: "rich_style \<Rightarrow> bool"
  format_file_uri :: "string \<Rightarrow> string"
  indent_text :: "string \<Rightarrow> string \<Rightarrow> string"
  print_raises :: "world \<Rightarrow> renderable \<Rightarrow> style option \<Rightarrow> bool"

definition init_world :: world where
  "init_world = \<lparr>stderr = False, trace = []\<rparr>"

text \<open>\<^verbatim>\<open>console.print(r, style=st, ...)\<close>: the line goes to the stream the flag selects.\<close>

definition console_print :: "env \<Rightarrow> world \<Rightarrow> renderable \<Rightarrow> style option \<Rightarrow> exn option \<times> world" where
  "console_print E w r st =
     (if print_raises E w r st then (Some RendererError, w)
      else (None, w\<lparr>trace := trace w @ [Print (stderr w) r st]\<rparr>))"

subsection \<open>The spinner handle\<close>

text \<open>
  \<^verbatim>\<open>console.status(message, spinner=...)\<close> allocates a handle; \<^verbatim>\<open>start()\<close> and
  \<^verbatim>\<open>stop()\<close> flip \<^verbatim>\<open>_live.is_started\<close> and do nothing when it already has the value.
\<close>

record status =
  status_message :: rich_text
  spinner :: string
  is_started :: bool

definition console_status :: "rich_text \<Rightarrow> string \<Rightarrow> status" where
  "console_status message sp = \<lparr>status_message = message, spinner = sp, is_started = False\<rparr>"

definition status_start :: "status \<Rightarrow> world \<Rightarrow> status \<times> world" where
  "status_start s w =
     (if is_started s then (s, w)
      else (s\<lparr>is_started := True\<rparr>,
            w\<lparr>trace := trace w @ [SpinnerStart (status_message s) (spinner s)]\<rparr>))"

definition status_stop :: "status \<Rightarrow> world \<Rightarrow> status \<times> world" where
  "status_stop s w =
     (if is_started s then (s\<lparr>is_started := False\<rparr>, w\<lparr>trace := trace w @ [SpinnerStop]\<rparr>)
      else (s, w))"

subsection \<open>BorrowedStatus\<close>

record borrowed =
  bs_tty :: bool
  bs_verbosity :: int
  bs_spinner_style :: string
  bs_waiting_style :: style
  bs_success_style :: style
  bs_status :: "status option"
  bs_messages :: "(rich_text \<times> string) list"

definition BorrowedStatus_init :: "bool \<Rightarrow> int \<Rightarrow> string \<Rightarrow> style \<Rightarrow> style \<Rightarrow> borrowed" where
  "BorrowedStatus_init tty verbosity spinner_style waiting_style success_style =
     \<lparr>bs_tty = tty, bs_verbosity = verbosity, bs_spinner_style = spinner_style,
      bs_waiting_style = waiting_style, bs_success_style = success_style,
      bs_status = None, bs_messages = []\<rparr>"

text \<open>The two hooks given at construction; the trace records each invocation.\<close>

definition initializer :: "world \<Rightarrow> world" where
  "initializer w = w\<lparr>trace := trace w @ [Initializer]\<rparr>"

definition finalizer :: "world \<Rightarrow> world" where
  "finalizer w = w\<lparr>trace := trace w @ [Finalizer]\<rparr>"

definition active :: "borrowed \<Rightarrow> bool" where
  "active b = (case bs_status b of None \<Rightarrow> False | Some s \<Rightarrow> is_started s)"

text \<open>\<^verbatim>\<open>__output\<close>: set the flag, print, and reset the flag in the \<^verbatim>\<open>finally\<close> block.\<close>

definition BorrowedStatus_output :: "env \<Rightarrow> world \<Rightarrow> rich_text \<Rightarrow> exn option \<times> world" where
  "BorrowedStatus_output E w t =
     (let w1 = w\<lparr>stderr := True\<rparr>;
          (e, w2) = console_print E w1 (RText t) None
      in (e, w2\<lparr>stderr := False\<rparr>))"

text \<open>\<^verbatim>\<open>f'Finished {final_text[:1].lower()}{final_text[1:]}'\<close>\<close>

definition finished :: "env \<Rightarrow> string \<Rightarrow> string" where
  "finished E final_text = ''Finished '' @ str_lower E (take 1 final_text) @ drop 1 final_text"

definition final_line :: "env \<Rightarrow> borrowed \<Rightarrow> rich_text \<Rightarrow> string \<Rightarrow> rich_text" where
  "final_line E b old_message final_text =
     Text (if final_text = [] then finished E (plain old_message) else final_text)
       (bs_success_style b)"

definition stop :: "env \<Rightarrow> borrowed \<Rightarrow> world \<Rightarrow> exn option \<times> borrowed \<times> world" where
  "stop E b w =
     (let act = active b;
          (b1, w1) = (case bs_status b of
                        None \<Rightarrow> (b, w)
                      | Some s \<Rightarrow> (let (s', w') = status_stop s w
                                  in (b\<lparr>bs_status := Some s'\<rparr>, w')))
      in if bs_messages b1 = [] then (Some IndexError, b1, w1)
         else (let (old_message, final_text) = last (bs_messages b1)
               in if bs_verbosity b1 > 0 \<and> act
                  then (let (e, w2) = BorrowedStatus_output E w1 (final_line E b1 old_message final_text)
                        in (e, b1, w2))
                  else (None, b1, w1)))"

definition call :: "borrowed \<Rightarrow> string \<Rightarrow> string \<Rightarrow> borrowed" where
  "call b message final_text =
     b\<lparr>bs_messages := bs_messages b @ [(Text message (bs_waiting_style b), final_text)]\<rparr>"

definition enter :: "env \<Rightarrow> borrowed \<Rightarrow> world \<Rightarrow> exn option \<times> borrowed \<times> world" where
  "enter E b w =
     (if bs_messages b = [] then (None, b, w)
      else (let (message, _) = last (bs_messages b)
            in if \<not> bs_tty b
               then (let (e, w1) = BorrowedStatus_output E w message in (e, b, w1))
               else (let w1 = (case bs_status b of
                                 None \<Rightarrow> initializer w
                               | Some s \<Rightarrow> snd (status_stop s w));
                         (s', w2) = status_start (console_status message (bs_spinner_style b)) w1
                     in (None, b\<lparr>bs_status := Some s'\<rparr>, w2))))"

definition exit :: "env \<Rightarrow> borrowed \<Rightarrow> world \<Rightarrow> exn option \<times> borrowed \<times> world" where
  "exit E b w =
     (if bs_messages b = [] then (Some IndexError, b, w)
      else (let (old_message, final_text) = last (bs_messages b);
                b1 = b\<lparr>bs_messages := butlast (bs_messages b)\<rparr>;
                (e, w1) = (if bs_verbosity b1 > 0 \<and> active b1
                           then BorrowedStatus_output E w (final_line E b1 old_message final_text)
                           else (None, w))
            in case e of
                 Some x \<Rightarrow> (Some x, b1, w1)
               | None \<Rightarrow>
                   if \<not> bs_tty b1 then (None, b1, w1)
                   else (case bs_status b1 of
                           None \<Rightarrow> (Some AttributeError, b1, w1)
                         | Some s \<Rightarrow>
                             (let (s1, w2) = status_stop s w1
                              in if bs_messages b1 = []
                                 then (None, b1\<lparr>bs_status := None\<rparr>, finalizer w2)
                                 else (let (message, _) = last (bs_messages b1);
                                           (s2, w3) = status_start
                                              (console_status message (bs_spinner_style b1)) w2
                                       in (None, b1\<lparr>bs_status := Some s2\<rparr>, w3))))))"

subsection \<open>Terminal\<close>

text \<open>
  The style attributes are created and read under computed names
  (\<^verbatim>\<open>getattr\<close>/\<^verbatim>\<open>setattr\<close> on \<^verbatim>\<open>f'_style_level_{option}'\<close>), so the model keeps them in a
  map from attribute name to value. No other attribute of the class has a name that
  starts with \<^verbatim>\<open>_style_\<close>. The console that \<^verbatim>\<open>__init__\<close> builds is the \<open>world\<close>.
\<close>

record terminal =
  verbosity :: int
  interactive :: bool
  attrs :: "string \<rightharpoonup> style"

definition Terminal_init :: "int \<Rightarrow> bool \<Rightarrow> terminal" where
  "Terminal_init v i =
     \<lparr>verbosity = v, interactive = i,
      attrs = map_of
        [(''_style_level_success'', Str ''bold cyan''),
         (''_style_level_error'', Str ''bold red''),
         (''_style_level_warning'', Str ''bold yellow''),
         (''_style_level_waiting'', Str ''bold magenta''),
         (''_style_level_info'', Str ''bold''),
         (''_style_level_debug'', Str ''bold''),
         (''_style_spinner'', Str ''simpleDotsScrolling'')]\<rparr>"

definition getattr :: "terminal \<Rightarrow> string \<Rightarrow> style option" where
  "getattr t attribute = attrs t attribute"

definition setattr :: "terminal \<Rightarrow> string \<Rightarrow> style \<Rightarrow> terminal" where
  "setattr t attribute v = t\<lparr>attrs := (attrs t)(attribute \<mapsto> v)\<rparr>"

text \<open>The truth value of \<^verbatim>\<open>getattr(self, attribute, None)\<close>.\<close>

definition truthy :: "env \<Rightarrow> style option \<Rightarrow> bool" where
  "truthy E x = (case x of None \<Rightarrow> False | Some (Str s) \<Rightarrow> s \<noteq> [] | Some (Obj so) \<Rightarrow> style_bool E so)"

definition str_of_style :: "env \<Rightarrow> style \<Rightarrow> string" where
  "str_of_style E st = (case st of Str s \<Rightarrow> s | Obj so \<Rightarrow> style_str E so)"

text \<open>
  \<^verbatim>\<open>Style.parse(x)\<close> on a value of \<^verbatim>\<open>Style | str\<close>: the parser calls \<^verbatim>\<open>x.strip()\<close>, which a
  \<^verbatim>\<open>Style\<close> object does not have.
\<close>

definition Style_parse :: "env \<Rightarrow> style \<Rightarrow> exn + rich_style" where
  "Style_parse E x =
     (case x of
        Str s \<Rightarrow> (case style_parse E s of Inl m \<Rightarrow> Inl (StyleSyntaxError m) | Inr so \<Rightarrow> Inr so)
      | Obj so \<Rightarrow> Inl AttributeError)"

definition level_attr :: "string \<Rightarrow> string" where
  "level_attr option = ''_style_level_'' @ option"

definition custom_attr :: "string \<Rightarrow> string" where
  "custom_attr option = ''_style_'' @ option"

definition invalid_style_message :: "string \<Rightarrow> string \<Rightarrow> string \<Rightarrow> string" where
  "invalid_style_message option default_level e =
     ''Invalid style definition for `'' @ option @ ''`, defaulting to `'' @ default_level @ ''`: '' @ e"

text \<open>
  The loop of \<^verbatim>\<open>initialize_styles\<close> over \<^verbatim>\<open>styles.items()\<close>, in the dictionary's order. An
  exception raised inside the \<^verbatim>\<open>except\<close> handler leaves the method with the attributes
  set so far.
\<close>

fun initialize_styles_loop ::
  "env \<Rightarrow> (string \<times> string) list \<Rightarrow> terminal \<Rightarrow> string list \<Rightarrow> (exn + string list) \<times> terminal" where
  "initialize_styles_loop E [] t errors = (Inr errors, t)"
| "initialize_styles_loop E ((option, style) # rest) t errors =
     (let attribute = level_attr option;
          default_level = getattr t attribute
      in if truthy E default_level
         then (case style_parse E style of
                 Inr so \<Rightarrow> initialize_styles_loop E rest (setattr t attribute (Obj so)) errors
               | Inl e \<Rightarrow>
                   (let errors1 = errors @
                          [invalid_style_message option (str_of_style E (the default_level)) e]
                    in case Style_parse E (the default_level) of
                         Inl x \<Rightarrow> (Inl x, t)
                       | Inr so \<Rightarrow> initialize_styles_loop E rest (setattr t attribute (Obj so)) errors1))
         else initialize_styles_loop E rest (setattr t (custom_attr option) (Str style)) errors)"

definition initialize_styles ::
  "env \<Rightarrow> terminal \<Rightarrow> (string \<times> string) list \<Rightarrow> (exn + string list) \<times> terminal" where
  "initialize_styles E t styles = initialize_styles_loop E styles t []"

text \<open>\<^verbatim>\<open>if indent: text = indent_text(text, indent)\<close>\<close>

definition apply_indent :: "env \<Rightarrow> string \<Rightarrow> string option \<Rightarrow> string" where
  "apply_indent E txt indent =
     (case indent of None \<Rightarrow> txt | Some i \<Rightarrow> if i = [] then txt else indent_text E txt i)"

definition update_link :: "rich_style \<Rightarrow> string \<Rightarrow> rich_style" where
  "update_link so uri = (case so of Style d _ \<Rightarrow> Style d (Some uri))"

text \<open>
  \<^verbatim>\<open>if link: style = style.update_link(...)\<close>; only a \<^verbatim>\<open>Style\<close> object has the method.
\<close>

definition apply_link :: "env \<Rightarrow> style option \<Rightarrow> string option \<Rightarrow> exn + style option" where
  "apply_link E st link =
     (case link of
        None \<Rightarrow> Inr st
      | Some l \<Rightarrow>
          if l = [] then Inr st
          else (case st of
                  Some (Obj so) \<Rightarrow> Inr (Some (Obj (update_link so (format_file_uri E l))))
                | _ \<Rightarrow> Inl AttributeError))"

definition Terminal_output ::
  "env \<Rightarrow> world \<Rightarrow> string \<Rightarrow> style option \<Rightarrow> bool \<Rightarrow> string option \<Rightarrow> string option
     \<Rightarrow> exn option \<times> world" where
  "Terminal_output E w txt st to_stderr indent link =
     (let txt1 = apply_indent E txt indent
      in case apply_link E st link of
           Inl x \<Rightarrow> (Some x, w)
         | Inr st1 \<Rightarrow>
             if \<not> to_stderr then console_print E w (RStr txt1) st1
             else (let w1 = w\<lparr>stderr := True\<rparr>;
                       (e, w2) = console_print E w1 (RStr txt1) st1
                   in (e, w2\<lparr>stderr := False\<rparr>)))"

text \<open>
  The body shared by the display methods after their gate: read the level's style
  attribute and call \<^verbatim>\<open>self.output\<close>.
\<close>

definition output_level ::
  "env \<Rightarrow> terminal \<Rightarrow> world \<Rightarrow> string \<Rightarrow> string \<Rightarrow> bool \<Rightarrow> string option \<Rightarrow> string option
     \<Rightarrow> exn option \<times> world" where
  "output_level E t w attribute txt to_stderr indent link =
     (case getattr t attribute of
        None \<Rightarrow> (Some AttributeError, w)
      | Some st \<Rightarrow> Terminal_output E w txt (Some st) to_stderr indent link)"

definition display_error ::
  "env \<Rightarrow> terminal \<Rightarrow> world \<Rightarrow> string \<Rightarrow> bool \<Rightarrow> string option \<Rightarrow> string option \<Rightarrow> exn option \<times> world" where
  "display_error E t w txt to_stderr indent link =
     (if verbosity t < - 2 then (None, w)
      else output_level E t w ''_style_level_error'' txt to_stderr indent link)"

definition display_warning ::
  "env \<Rightarrow> terminal \<Rightarrow> world \<Rightarrow> string \<Rightarrow> bool \<Rightarrow> string option \<Rightarrow> string option \<Rightarrow> exn option \<times> world" where
  "display_warning E t w txt to_stderr indent link =
     (if verbosity t < - 1 then (None, w)
      else output_level E t w ''_style_level_warning'' txt to_stderr indent link)"

definition display_info ::
  "env \<Rightarrow> terminal \<Rightarrow> world \<Rightarrow> string \<Rightarrow> bool \<Rightarrow> string option \<Rightarrow> string option \<Rightarrow> exn option \<times> world" where
  "display_info E t w txt to_stderr indent link =
     (if verbosity t < 0 then (None, w)
      else output_level E t w ''_style_level_info'' txt to_stderr indent link)"

definition display_success ::
  "env \<Rightarrow> terminal \<Rightarrow> world \<Rightarrow> string \<Rightarrow> bool \<Rightarrow> string option \<Rightarrow> string option \<Rightarrow> exn option \<times> world" where
  "display_success E t w txt to_stderr indent link =
     (if verbosity t < 0 then (None, w)
      else output_level E t w ''_style_level_success'' txt to_stderr indent link)"

definition display_waiting ::
  "env \<Rightarrow> terminal \<Rightarrow> world \<Rightarrow> string \<Rightarrow> bool \<Rightarrow> string option \<Rightarrow> string option \<Rightarrow> exn option \<times> world" where
  "display_waiting E t w txt to_stderr indent link =
     (if verbosity t < 0 then (None, w)
      else output_level E t w ''_style_level_waiting'' txt to_stderr indent link)"

definition debug_level_message :: string where
  "debug_level_message = ''Debug output can only have verbosity levels between 1 and 3 (inclusive)''"

definition display_debug ::
  "env \<Rightarrow> terminal \<Rightarrow> world \<Rightarrow> string \<Rightarrow> int \<Rightarrow> bool \<Rightarrow> string option \<Rightarrow> string option
     \<Rightarrow> exn option \<times> world" where
  "display_debug E t w txt level to_stderr indent link =
     (if \<not> (1 \<le> level \<and> level \<le> 3) then (Some (ValueError debug_level_message), w)
      else if verbosity t < level then (None, w)
      else output_level E t w ''_style_level_debug'' txt to_stderr indent link)"

subsection \<open>Runs of the program\<close>

text \<open>
  A caller drives the status object and the sink in any order, and may catch an
  exception and go on, so a run keeps the state an operation leaves behind whether or
  not it raised.
\<close>

datatype op =
    Call string string
  | Enter
  | Exit
  | Stop
  | Output string "style option" bool "string option" "string option"

fun step :: "env \<Rightarrow> op \<Rightarrow> borrowed \<times> world \<Rightarrow> borrowed \<times> world" where
  "step E (Call message final_text) (b, w) = (call b message final_text, w)"
| "step E Enter (b, w) = snd (enter E b w)"
| "step E Exit (b, w) = snd (exit E b w)"
| "step E Stop (b, w) = snd (stop E b w)"
| "step E (Output txt st to_stderr indent link) (b, w) = (b, snd (Terminal_output E w txt st to_stderr indent link))"

definition run :: "env \<Rightarrow> op list \<Rightarrow> borrowed \<times> world \<Rightarrow> borrowed \<times> world" where
  "run E ops s = fold (step E) ops s"

text \<open>The events a call added to the trace, and the lines among them.\<close>

definition added :: "world \<Rightarrow> world \<Rightarrow> event list" where
  "added w w' = drop (length (trace w)) (trace w')"

fun is_print :: "event \<Rightarrow> bool" where
  "is_print (Print _ _ _) = True"
| "is_print _ = False"

subsection \<open>A concrete set of collaborators\<close>

text \<open>
  ASCII lower-casing, a parser that rejects the one word \<^verbatim>\<open>bad\<close> with the message
  \<^verbatim>\<open>rich\<close> gives for it, and a renderer that never raises; \<open>failing_env\<close> is the same
  with a renderer that always raises.
\<close>

definition lower_char :: "char \<Rightarrow> char" where
  "lower_char c =
     (let n = (of_char c :: nat) in if 65 \<le> n \<and> n \<le> 90 then char_of (n + 32) else c)"

definition bad_style_error :: string where
  "bad_style_error = ''unable to parse 'bad' as color; 'bad' is not a valid color''"

definition demo_env :: env where
  "demo_env =
     \<lparr>str_lower = map lower_char,
      style_parse = (\<lambda>s. if s = ''bad'' then Inl bad_style_error else Inr (Style s None)),
      style_str = (\<lambda>so. case so of Style d _ \<Rightarrow> d),
      style_bool = (\<lambda>so. case so of Style d l \<Rightarrow> \<not> (d = [] \<and> l = None)),
      format_file_uri = (\<lambda>p. ''file://'' @ p),
      indent_text = (\<lambda>txt prefix. prefix @ txt),
      print_raises = (\<lambda>w r st. False)\<rparr>"

definition failing_env :: env where
  "failing_env = demo_env\<lparr>print_raises := (\<lambda>w r st. True)\<rparr>"

definition demo_status :: "bool \<Rightarrow> int \<Rightarrow> borrowed" where
  "demo_status tty v =
     BorrowedStatus_init tty v ''simpleDotsScrolling'' (Str ''bold magenta'') (Str ''bold cyan'')"

subsection \<open>Invariants of a run\<close>

text \<open>Off a terminal the status object never holds a handle.\<close>

definition quiet :: "borrowed \<Rightarrow> bool" where
  "quiet b = (\<not> bs_tty b \<and> bs_status b = None)"

subsection \<open>Vocabulary of the gating property\<close>

text \<open>
  The six level names that have a default style, and what it means for a display call
  with result \<open>res\<close> to be gated at \<open>floor\<close>: below the floor the call returns without an
  exception and leaves the world as it was; at or above it the call first attaches the
  link to the level's style, which raises \<^verbatim>\<open>AttributeError\<close> and leaves the world as it
  was when there is a link and the style is not a \<^verbatim>\<open>Style\<close> object, and otherwise it
  returns without an exception after handing exactly one line, the indented text in
  the resulting style, to the renderer on the chosen stream.
\<close>

definition level_names :: "string list" where
  "level_names = [''success'', ''error'', ''warning'', ''waiting'', ''info'', ''debug'']"

definition gated ::
  "env \<Rightarrow> terminal \<Rightarrow> world \<Rightarrow> int \<Rightarrow> string \<Rightarrow> string \<Rightarrow> bool \<Rightarrow> string option
     \<Rightarrow> string option \<Rightarrow> exn option \<times> world \<Rightarrow> bool" where
  "gated E t w floor attribute txt to_stderr indent link res =
     (if verbosity t < floor then res = (None, w)
      else (case apply_link E (getattr t attribute) link of
              Inl x \<Rightarrow> res = (Some x, w)
            | Inr st \<Rightarrow>
                fst res = None
              \<and> trace (snd res) = trace w @
                   [Print (to_stderr \<or> stderr w) (RStr (apply_indent E txt indent)) st]))"

subsection \<open>Vocabulary of the style property\<close>

text \<open>
  For a key of the overrides and a terminal: whether the key is a recognized level name
  (its level attribute exists and is truthy), whether its current default is usable as
  a fallback (absent, empty, or a descriptor string that parses), the text of that
  default and its parsed form, the error strings the call is expected to queue for an
  entry, and the attribute and value the entry is expected to leave behind.
\<close>

definition recognized :: "env \<Rightarrow> terminal \<Rightarrow> string \<Rightarrow> bool" where
  "recognized E t option = truthy E (getattr t (level_attr option))"

definition default_ok :: "env \<Rightarrow> terminal \<Rightarrow> string \<Rightarrow> bool" where
  "default_ok E t option =
     (case getattr t (level_attr option) of
        None \<Rightarrow> True
      | Some (Str d) \<Rightarrow> d = [] \<or> \<not> isl (style_parse E d)
      | Some (Obj so) \<Rightarrow> \<not> style_bool E so)"

definition default_text :: "env \<Rightarrow> terminal \<Rightarrow> string \<Rightarrow> string" where
  "default_text E t option = str_of_style E (the (getattr t (level_attr option)))"

definition fallback :: "env \<Rightarrow> terminal \<Rightarrow> string \<Rightarrow> rich_style" where
  "fallback E t option = projr (style_parse E (default_text E t option))"

definition expected_error :: "env \<Rightarrow> terminal \<Rightarrow> string \<times> string \<Rightarrow> string list" where
  "expected_error E t kv =
     (case kv of (option, style) \<Rightarrow>
        if recognized E t option
        then (case style_parse E style of
                Inl e \<Rightarrow> [invalid_style_message option (default_text E t option) e]
              | Inr so \<Rightarrow> [])
        else [])"

definition expected_attr :: "env \<Rightarrow> terminal \<Rightarrow> string \<times> string \<Rightarrow> string \<times> style" where
  "expected_attr E t kv =
     (case kv of (option, style) \<Rightarrow>
        if recognized E t option
        then (level_attr option,
              Obj (case style_parse E style of Inr so \<Rightarrow> so | Inl e \<Rightarrow> fallback E t option))
        else (custom_attr option, Str style))"

section \<open>Properties\<close>

subsection \<open>Evaluation and invariants\<close>

text \<open>The definitions a concrete run unfolds to.\<close>

lemmas model_defs =
  run_def demo_status_def BorrowedStatus_init_def init_world_def demo_env_def failing_env_def
  call_def enter_def exit_def stop_def active_def final_line_def finished_def
  Text_def strip_control_codes_def STRIP_CONTROL_CODES_def
  BorrowedStatus_output_def console_print_def Terminal_output_def apply_indent_def apply_link_def
  status_start_def status_stop_def console_status_def initializer_def finalizer_def

text \<open>
  The \<^verbatim>\<open>stderr\<close> flag is \<open>False\<close> whenever no call is in progress: every method that
  sets it resets it in a \<^verbatim>\<open>finally\<close> block, and nothing else writes it.
\<close>

lemma stderr_status_stop: "stderr (snd (status_stop s w)) = stderr w"
  by (simp add: status_stop_def)

lemma stderr_status_start: "stderr (snd (status_start s w)) = stderr w"
  by (simp add: status_start_def)

lemma stderr_BorrowedStatus_output: "stderr (snd (BorrowedStatus_output E w t)) = False"
  by (simp add: BorrowedStatus_output_def console_print_def Let_def)

lemma stderr_Terminal_output:
  "\<not> stderr w \<Longrightarrow> \<not> stderr (snd (Terminal_output E w txt st se ind link))"
  by (simp add: Terminal_output_def console_print_def Let_def split: sum.splits)

lemma stderr_stop: "\<not> stderr w \<Longrightarrow> \<not> stderr (snd (snd (stop E b w)))"
  by (auto simp: stop_def Let_def status_stop_def BorrowedStatus_output_def console_print_def
      split: option.splits prod.splits if_splits)

lemma stderr_enter: "\<not> stderr w \<Longrightarrow> \<not> stderr (snd (snd (enter E b w)))"
  by (auto simp: enter_def Let_def status_stop_def status_start_def initializer_def
      BorrowedStatus_output_def console_print_def
      split: option.splits prod.splits if_splits)

lemma stderr_exit: "\<not> stderr w \<Longrightarrow> \<not> stderr (snd (snd (exit E b w)))"
  by (auto simp: exit_def Let_def status_stop_def status_start_def finalizer_def
      BorrowedStatus_output_def console_print_def
      split: option.splits prod.splits if_splits)

lemma stderr_step: "\<not> stderr (snd s) \<Longrightarrow> \<not> stderr (snd (step E x s))"
  by (cases s; cases x) (simp_all add: stderr_stop stderr_enter stderr_exit stderr_Terminal_output)

lemma stderr_run: "\<not> stderr (snd s) \<Longrightarrow> \<not> stderr (snd (run E ops s))"
  unfolding run_def by (induction ops arbitrary: s) (simp_all add: stderr_step)

lemma quiet_stop: "quiet b \<Longrightarrow> quiet (fst (snd (stop E b w)))"
  by (auto simp: quiet_def stop_def Let_def split: prod.splits)

lemma quiet_enter: "quiet b \<Longrightarrow> quiet (fst (snd (enter E b w)))"
  by (auto simp: quiet_def enter_def Let_def split: prod.splits)

lemma quiet_exit: "quiet b \<Longrightarrow> quiet (fst (snd (exit E b w)))"
  by (auto simp: quiet_def exit_def Let_def active_def split: prod.splits option.splits)

lemma quiet_step: "quiet (fst s) \<Longrightarrow> quiet (fst (step E x s))"
  by (cases s; cases x) (simp_all add: quiet_stop quiet_enter quiet_exit, simp add: quiet_def call_def)

lemma quiet_run: "quiet (fst s) \<Longrightarrow> quiet (fst (run E ops s))"
  unfolding run_def by (induction ops arbitrary: s) (simp_all add: quiet_step)

lemma config_stop:
  "bs_tty (fst (snd (stop E b w))) = bs_tty b \<and> bs_waiting_style (fst (snd (stop E b w))) = bs_waiting_style b"
  by (auto simp: stop_def Let_def split: prod.splits option.splits)

lemma config_enter:
  "bs_tty (fst (snd (enter E b w))) = bs_tty b \<and> bs_waiting_style (fst (snd (enter E b w))) = bs_waiting_style b"
  by (auto simp: enter_def Let_def split: prod.splits option.splits)

lemma config_exit:
  "bs_tty (fst (snd (exit E b w))) = bs_tty b \<and> bs_waiting_style (fst (snd (exit E b w))) = bs_waiting_style b"
  by (auto simp: exit_def Let_def split: prod.splits option.splits)

lemma waiting_style_step: "bs_waiting_style (fst (step E x s)) = bs_waiting_style (fst s)"
  by (cases s; cases x) (simp_all add: config_stop config_enter config_exit call_def)

lemma waiting_style_run: "bs_waiting_style (fst (run E ops s)) = bs_waiting_style (fst s)"
  unfolding run_def by (induction ops arbitrary: s) (simp_all add: waiting_style_step)

subsection \<open>Empty stack\<close>

text \<open>
  C1. \<^verbatim>\<open>stop()\<close> on a status object that never acquired anything: the stack is empty and
  there is no handle. The method indexes \<^verbatim>\<open>self.__messages[-1]\<close> without a guard, so it
  raises \<^verbatim>\<open>IndexError\<close>; nothing was printed and the object is unchanged.
\<close>

theorem stop_empty_raises:
  "stop E (BorrowedStatus_init tty v sp ws ss) w
     = (Some IndexError, BorrowedStatus_init tty v sp ws ss, w)"
  by (simp add: stop_def BorrowedStatus_init_def active_def)

text \<open>
  C2. Leaving the status scope when the stack is empty raises \<^verbatim>\<open>IndexError\<close> (from
  \<^verbatim>\<open>list.pop\<close>), with the object and the output untouched.
\<close>

theorem exit_empty_fails:
  "bs_messages b = [] \<Longrightarrow> exit E b w = (Some IndexError, b, w)"
  by (simp add: exit_def)

theorem exit_empty_fails_witness:
  "bs_messages (demo_status True 1) = []
   \<and> exit demo_env (demo_status True 1) init_world
       = (Some IndexError,
          demo_status True 1, init_world)"
  using exit_empty_fails [of "demo_status True 1" demo_env init_world]
  by (simp add: demo_status_def BorrowedStatus_init_def)

text \<open>
  C10. Entering the context manager while the message stack is empty returns at once:
  no exception, the object unchanged (no handle started), and the world unchanged
  (nothing printed, no hook invoked).
\<close>

theorem enter_empty_noop:
  "bs_messages b = [] \<Longrightarrow> enter E b w = (None, b, w)"
  by (simp add: enter_def)

theorem enter_empty_noop_witness:
  "bs_messages (demo_status True 1) = []
   \<and> enter demo_env (demo_status True 1) init_world
       = (None,
          demo_status True 1, init_world)"
  using enter_empty_noop [of "demo_status True 1" demo_env init_world]
  by (simp add: demo_status_def BorrowedStatus_init_def)

subsection \<open>Off a terminal\<close>

text \<open>
  C3. Take any state the status object reaches when it was built with \<^verbatim>\<open>tty=False\<close>, for
  any verbosity and any operations before. Acquiring a status with message \<open>M\<close> and
  any final text \<open>F\<close> prints exactly one line, the waiting message in the waiting style
  (the \<^verbatim>\<open>Text\<close> built from \<open>M\<close> at acquire; given that the renderer does not raise on
  it), and releasing the top status prints nothing and changes only the stack.
\<close>

theorem nontty_acquire_release:
  assumes r: "run E ops (BorrowedStatus_init False v sp ws ss, init_world) = (b, w)"
  shows "(\<not> print_raises E (w\<lparr>stderr := True\<rparr>) (RText (Text M ws)) None \<longrightarrow>
            enter E (call b M F) w =
              (None, call b M F,
               w\<lparr>trace := trace w @ [Print True (RText (Text M ws)) None]\<rparr>))
       \<and> (bs_messages b \<noteq> [] \<longrightarrow>
            exit E b w = (None, b\<lparr>bs_messages := butlast (bs_messages b)\<rparr>, w))"
proof -
  let ?s0 = "(BorrowedStatus_init False v sp ws ss, init_world)"
  have "quiet (fst ?s0)" by (simp add: quiet_def BorrowedStatus_init_def)
  then have "quiet (fst (run E ops ?s0))" by (rule quiet_run)
  with r have q: "\<not> bs_tty b" "bs_status b = None" by (simp_all add: quiet_def)
  have "\<not> stderr (snd ?s0)" by (simp add: init_world_def)
  then have "\<not> stderr (snd (run E ops ?s0))" by (rule stderr_run)
  with r have f: "\<not> stderr w" by simp
  have "bs_waiting_style (fst (run E ops ?s0)) = bs_waiting_style (fst ?s0)"
    by (rule waiting_style_run)
  with r have s: "bs_waiting_style b = ws" by (simp add: BorrowedStatus_init_def)
  have A: "\<not> print_raises E (w\<lparr>stderr := True\<rparr>) (RText (Text M ws)) None \<Longrightarrow>
            enter E (call b M F) w =
              (None, call b M F,
               w\<lparr>trace := trace w @ [Print True (RText (Text M ws)) None]\<rparr>)"
    using q s f by (simp add: enter_def call_def BorrowedStatus_output_def console_print_def Let_def)
  have B: "bs_messages b \<noteq> [] \<Longrightarrow>
            exit E b w = (None, b\<lparr>bs_messages := butlast (bs_messages b)\<rparr>, w)"
    using q by (simp add: exit_def active_def Let_def split: prod.splits)
  from A B show ?thesis by blast
qed

theorem nontty_acquire_release_witness:
  "run demo_env [Call ''Outer'' ''Done'', Enter] (BorrowedStatus_init False 3 ''dots'' (Str ''bold magenta'') (Str ''bold cyan''), init_world)
     = (\<lparr>bs_tty = False, bs_verbosity = 3, bs_spinner_style = ''dots'',
         bs_waiting_style = Str ''bold magenta'', bs_success_style = Str ''bold cyan'',
         bs_status = None,
         bs_messages = [(\<lparr>plain = ''Outer'', style_of = Str ''bold magenta''\<rparr>, ''Done'')]\<rparr>,
        \<lparr>stderr = False,
         trace = [Print True (RText \<lparr>plain = ''Outer'', style_of = Str ''bold magenta''\<rparr>) None]\<rparr>)
   \<and> \<not> print_raises demo_env
         (\<lparr>stderr = True,
           trace = [Print True (RText \<lparr>plain = ''Outer'', style_of = Str ''bold magenta''\<rparr>) None]\<rparr>)
         (RText \<lparr>plain = ''Building'', style_of = Str ''bold magenta''\<rparr>) None
   \<and> trace (snd (snd (enter demo_env
        \<lparr>bs_tty = False, bs_verbosity = 3, bs_spinner_style = ''dots'',
         bs_waiting_style = Str ''bold magenta'', bs_success_style = Str ''bold cyan'',
         bs_status = None,
         bs_messages = [(\<lparr>plain = ''Outer'', style_of = Str ''bold magenta''\<rparr>, ''Done''),
                        (\<lparr>plain = ''Building'', style_of = Str ''bold magenta''\<rparr>, ''Built'')]\<rparr>
        \<lparr>stderr = False,
         trace = [Print True (RText \<lparr>plain = ''Outer'', style_of = Str ''bold magenta''\<rparr>) None]\<rparr>)))
      = [Print True (RText \<lparr>plain = ''Outer'', style_of = Str ''bold magenta''\<rparr>) None,
         Print True (RText \<lparr>plain = ''Building'', style_of = Str ''bold magenta''\<rparr>) None]
   \<and> exit demo_env
        \<lparr>bs_tty = False, bs_verbosity = 3, bs_spinner_style = ''dots'',
         bs_waiting_style = Str ''bold magenta'', bs_success_style = Str ''bold cyan'',
         bs_status = None,
         bs_messages = [(\<lparr>plain = ''Outer'', style_of = Str ''bold magenta''\<rparr>, ''Done'')]\<rparr>
        \<lparr>stderr = False,
         trace = [Print True (RText \<lparr>plain = ''Outer'', style_of = Str ''bold magenta''\<rparr>) None]\<rparr>
      = (None,
         \<lparr>bs_tty = False, bs_verbosity = 3, bs_spinner_style = ''dots'',
          bs_waiting_style = Str ''bold magenta'', bs_success_style = Str ''bold cyan'',
          bs_status = None, bs_messages = []\<rparr>,
         \<lparr>stderr = False,
          trace = [Print True (RText \<lparr>plain = ''Outer'', style_of = Str ''bold magenta''\<rparr>) None]\<rparr>)"
proof -
  have r: "run demo_env [Call ''Outer'' ''Done'', Enter] (BorrowedStatus_init False 3 ''dots'' (Str ''bold magenta'') (Str ''bold cyan''), init_world)
     = (\<lparr>bs_tty = False, bs_verbosity = 3, bs_spinner_style = ''dots'',
         bs_waiting_style = Str ''bold magenta'', bs_success_style = Str ''bold cyan'',
         bs_status = None,
         bs_messages = [(\<lparr>plain = ''Outer'', style_of = Str ''bold magenta''\<rparr>, ''Done'')]\<rparr>,
        \<lparr>stderr = False,
         trace = [Print True (RText \<lparr>plain = ''Outer'', style_of = Str ''bold magenta''\<rparr>) None]\<rparr>)"
    by (simp add: model_defs)
  show ?thesis
    using r nontty_acquire_release [OF r, of "''Building''" "''Built''"]
    by (simp add: call_def demo_env_def Text_def strip_control_codes_def STRIP_CONTROL_CODES_def)
qed

subsection \<open>The stream flag\<close>

text \<open>
  C5. In every state a run reaches, a \<^verbatim>\<open>Terminal.output\<close> call with \<^verbatim>\<open>stderr=True\<close> and a
  \<^verbatim>\<open>BorrowedStatus.__output\<close> call leave the console's \<^verbatim>\<open>stderr\<close> flag at the value it
  had before the call, whatever the renderer does, raising included. (The \<^verbatim>\<open>finally\<close>
  block writes \<open>False\<close>; by \<open>stderr_run\<close> that is the value the flag has before every
  call of a run that starts from the console as \<^verbatim>\<open>Terminal.__init__\<close> builds it.)
\<close>

theorem stderr_flag_restored:
  assumes r: "run E ops (BorrowedStatus_init tty v sp ws ss, init_world) = (b, w)"
  shows "stderr (snd (Terminal_output E w txt st True indent link)) = stderr w
       \<and> stderr (snd (BorrowedStatus_output E w t)) = stderr w"
proof -
  let ?s0 = "(BorrowedStatus_init tty v sp ws ss, init_world)"
  have "\<not> stderr (snd ?s0)" by (simp add: init_world_def)
  then have "\<not> stderr (snd (run E ops ?s0))" by (rule stderr_run)
  with r have f: "\<not> stderr w" by simp
  show ?thesis using f stderr_Terminal_output [OF f] stderr_BorrowedStatus_output by simp
qed

theorem stderr_flag_restored_witness:
  "run failing_env [Call ''Outer'' ''Done'', Enter, Output ''x'' None True None None]
      (BorrowedStatus_init True 1 ''dots'' (Str ''bold magenta'') (Str ''bold cyan''), init_world)
     = (\<lparr>bs_tty = True, bs_verbosity = 1, bs_spinner_style = ''dots'',
         bs_waiting_style = Str ''bold magenta'', bs_success_style = Str ''bold cyan'',
         bs_status = Some \<lparr>status_message = \<lparr>plain = ''Outer'', style_of = Str ''bold magenta''\<rparr>,
                            spinner = ''dots'', is_started = True\<rparr>,
         bs_messages = [(\<lparr>plain = ''Outer'', style_of = Str ''bold magenta''\<rparr>, ''Done'')]\<rparr>,
        \<lparr>stderr = False,
         trace = [Initializer, SpinnerStart \<lparr>plain = ''Outer'', style_of = Str ''bold magenta''\<rparr> ''dots'']\<rparr>)
   \<and> Terminal_output failing_env
        \<lparr>stderr = False,
         trace = [Initializer, SpinnerStart \<lparr>plain = ''Outer'', style_of = Str ''bold magenta''\<rparr> ''dots'']\<rparr>
        ''failed'' (Some (Str ''bold red'')) True None None
      = (Some RendererError,
         \<lparr>stderr = False,
          trace = [Initializer, SpinnerStart \<lparr>plain = ''Outer'', style_of = Str ''bold magenta''\<rparr> ''dots'']\<rparr>)
   \<and> stderr (snd (BorrowedStatus_output failing_env
        \<lparr>stderr = False,
         trace = [Initializer, SpinnerStart \<lparr>plain = ''Outer'', style_of = Str ''bold magenta''\<rparr> ''dots'']\<rparr>
        \<lparr>plain = ''Done'', style_of = Str ''bold cyan''\<rparr>)) = False"
proof -
  have r: "run failing_env [Call ''Outer'' ''Done'', Enter, Output ''x'' None True None None]
      (BorrowedStatus_init True 1 ''dots'' (Str ''bold magenta'') (Str ''bold cyan''), init_world)
     = (\<lparr>bs_tty = True, bs_verbosity = 1, bs_spinner_style = ''dots'',
         bs_waiting_style = Str ''bold magenta'', bs_success_style = Str ''bold cyan'',
         bs_status = Some \<lparr>status_message = \<lparr>plain = ''Outer'', style_of = Str ''bold magenta''\<rparr>,
                            spinner = ''dots'', is_started = True\<rparr>,
         bs_messages = [(\<lparr>plain = ''Outer'', style_of = Str ''bold magenta''\<rparr>, ''Done'')]\<rparr>,
        \<lparr>stderr = False,
         trace = [Initializer, SpinnerStart \<lparr>plain = ''Outer'', style_of = Str ''bold magenta''\<rparr> ''dots'']\<rparr>)"
    by (simp add: model_defs)
  show ?thesis
    using r stderr_flag_restored [OF r, of "''failed''" "Some (Str ''bold red'')" None None
        "\<lparr>plain = ''Done'', style_of = Str ''bold cyan''\<rparr>"]
    by (simp add: model_defs)
qed

subsection \<open>What a pop and a stop do\<close>

text \<open>
  The result of \<^verbatim>\<open>__exit__\<close>, \<^verbatim>\<open>stop\<close> and \<^verbatim>\<open>__enter__\<close> on a non-empty stack, one
  component at a time.
\<close>

lemma trace_exit:
  assumes "bs_messages b = ms @ [(m, F)]"
  shows "trace (snd (snd (exit E b w))) = trace w @
     (if 0 < bs_verbosity b \<and> active b
        \<and> print_raises E (w\<lparr>stderr := True\<rparr>) (RText (final_line E b m F)) None
      then []
      else (if 0 < bs_verbosity b \<and> active b
            then [Print True (RText (final_line E b m F)) None] else []) @
           (if bs_tty b \<and> bs_status b \<noteq> None
            then (if active b then [SpinnerStop] else []) @
                 (if ms = [] then [Finalizer]
                  else [SpinnerStart (fst (last ms)) (bs_spinner_style b)])
            else []))"
proof (cases "bs_status b")
  case None
  then show ?thesis using assms
    by (simp add: exit_def Let_def active_def split_beta)
next
  case (Some s)
  then show ?thesis using assms
    by (simp add: exit_def Let_def final_line_def BorrowedStatus_output_def console_print_def
        status_stop_def status_start_def finalizer_def console_status_def active_def split_beta)
qed

lemma fst_exit:
  assumes "bs_messages b = ms @ [(m, F)]"
  shows "fst (exit E b w) =
     (if 0 < bs_verbosity b \<and> active b
        \<and> print_raises E (w\<lparr>stderr := True\<rparr>) (RText (final_line E b m F)) None
      then Some RendererError
      else if bs_tty b \<and> bs_status b = None then Some AttributeError else None)"
proof (cases "bs_status b")
  case None
  then show ?thesis using assms
    by (simp add: exit_def Let_def active_def split_beta)
next
  case (Some s)
  then show ?thesis using assms
    by (simp add: exit_def Let_def final_line_def BorrowedStatus_output_def console_print_def
        status_stop_def status_start_def finalizer_def console_status_def active_def split_beta)
qed

lemma messages_exit:
  assumes "bs_messages b = ms @ [(m, F)]"
  shows "bs_messages (fst (snd (exit E b w))) = ms"
  using assms
  by (simp add: exit_def Let_def split_beta split: option.split)

lemma status_exit:
  assumes "bs_messages b = ms @ [(m, F)]"
  shows "bs_status (fst (snd (exit E b w))) =
     (if (0 < bs_verbosity b \<and> active b
          \<and> print_raises E (w\<lparr>stderr := True\<rparr>) (RText (final_line E b m F)) None)
         \<or> \<not> bs_tty b \<or> bs_status b = None
      then bs_status b
      else if ms = [] then None
      else Some \<lparr>status_message = fst (last ms), spinner = bs_spinner_style b, is_started = True\<rparr>)"
proof (cases "bs_status b")
  case None
  then show ?thesis using assms
    by (simp add: exit_def Let_def active_def split_beta)
next
  case (Some s)
  then show ?thesis using assms
    by (simp add: exit_def Let_def final_line_def BorrowedStatus_output_def console_print_def
        status_stop_def status_start_def finalizer_def console_status_def active_def split_beta)
qed

lemma trace_stop:
  assumes "bs_messages b = ms @ [(m, F)]"
  shows "trace (snd (snd (stop E b w))) = trace w @
     (if active b then [SpinnerStop] else []) @
     (if 0 < bs_verbosity b \<and> active b
        \<and> \<not> print_raises E (w\<lparr>trace := trace w @ [SpinnerStop], stderr := True\<rparr>)
              (RText (final_line E b m F)) None
      then [Print True (RText (final_line E b m F)) None] else [])"
proof (cases "bs_status b")
  case None
  then show ?thesis using assms
    by (simp add: stop_def Let_def active_def split_beta)
next
  case (Some s)
  then show ?thesis using assms
    by (simp add: stop_def Let_def final_line_def BorrowedStatus_output_def console_print_def
        status_stop_def active_def split_beta)
qed

lemma added_trace: "trace w' = trace w @ evs \<Longrightarrow> added w w' = evs"
  by (simp add: added_def)

lemma strip_control_codes_append:
  "strip_control_codes (xs @ ys) = strip_control_codes xs @ strip_control_codes ys"
  by (simp add: strip_control_codes_def)

lemma strip_control_free: "control_free xs \<Longrightarrow> strip_control_codes xs = xs"
  by (induction xs) (simp_all add: control_free_def strip_control_codes_def)

lemma control_free_drop: "control_free xs \<Longrightarrow> control_free (drop n xs)"
  by (auto simp: control_free_def list_all_iff dest: in_set_dropD)

lemma final_line_text:
  "final_line E b (Text M st) F =
     Text (if F = [] then ''Finished '' @ str_lower E (take 1 (strip_control_codes M))
                            @ drop 1 (strip_control_codes M)
           else F)
       (bs_success_style b)"
  by (simp add: final_line_def finished_def Text_def)

lemma enter_tty:
  assumes "bs_tty b" and "bs_messages b = ms @ [(m, F)]"
  shows "enter E b w =
     (None,
      b\<lparr>bs_status := Some \<lparr>status_message = m, spinner = bs_spinner_style b, is_started = True\<rparr>\<rparr>,
      w\<lparr>trace := trace w @
          (if bs_status b = None then [Initializer] else if active b then [SpinnerStop] else []) @
          [SpinnerStart m (bs_spinner_style b)]\<rparr>)"
proof (cases "bs_status b")
  case None
  then show ?thesis using assms
    by (simp add: enter_def Let_def initializer_def status_start_def console_status_def)
next
  case (Some s)
  then show ?thesis using assms
    by (simp add: enter_def Let_def status_stop_def status_start_def console_status_def active_def)
qed

subsection \<open>The completion line\<close>

text \<open>
  C4, as stated, fails. Acquire a status on a terminal with the message
  \<^verbatim>\<open>"\rBuilding"\<close> (a carriage return, then \<^verbatim>\<open>Building\<close>) and no final text, at verbosity
  1, and release it. \<^verbatim>\<open>Text\<close> stored the message without the carriage return, so the
  completion line is \<^verbatim>\<open>Finished building\<close>. The claim gives \<^verbatim>\<open>Finished\<close>, a space, the
  lower-cased first character of the message (the carriage return itself) and the rest
  unchanged: \<^verbatim>\<open>Finished \rBuilding\<close>.
\<close>

theorem completion_line_counterexample:
  "filter is_print (trace (snd (run demo_env [Call (CHR 0x0D # ''Building'') [], Enter, Exit]
      (demo_status True 1, init_world))))
     = [Print True (RText \<lparr>plain = ''Finished building'', style_of = Str ''bold cyan''\<rparr>) None]
   \<and> ''Finished building''
       \<noteq> ''Finished '' @ str_lower demo_env (take 1 (CHR 0x0D # ''Building''))
            @ drop 1 (CHR 0x0D # ''Building'')"
proof -
  have lb: "lower_char CHR ''B'' = CHR ''b''"
    by code_simp
  have lr: "lower_char (CHR 0x0D) = CHR 0x0D"
    by code_simp
  have sl: "str_lower demo_env = map lower_char"
    by (simp add: demo_env_def)
  have pr: "print_raises demo_env = (\<lambda>w r st. False)"
    by (simp add: demo_env_def)
  show ?thesis
    by (simp add: run_def demo_status_def BorrowedStatus_init_def init_world_def call_def enter_def
        exit_def active_def final_line_def finished_def Text_def strip_control_codes_def
        STRIP_CONTROL_CODES_def BorrowedStatus_output_def console_print_def status_start_def
        status_stop_def console_status_def initializer_def finalizer_def sl pr lb lr)
qed

text \<open>
  C4, amended. Let the top of the stack be a status acquired with message \<open>M\<close> and final
  text \<open>F\<close>. The lines that a pop (\<^verbatim>\<open>__exit__\<close>) or a \<^verbatim>\<open>stop\<close> prints are exactly one line
  when the verbosity is positive, the handle is live and the renderer does not raise,
  and none otherwise. That line is the \<^verbatim>\<open>Text\<close>, in the success style and on the error
  stream, of \<open>F\<close> when \<open>F\<close> is not empty, and otherwise of \<^verbatim>\<open>Finished\<close>, a space, the
  lower-cased first character of the stored message and the rest of the stored message
  unchanged, where the stored message is \<open>M\<close> without bell, backspace, vertical tab,
  form feed and carriage return; \<^verbatim>\<open>Text\<close> removes these characters from the line as
  well. When \<open>M\<close>, \<open>F\<close> and the lower-cased first character contain none of them, the
  text of the line is \<open>F\<close> verbatim, or \<^verbatim>\<open>Finished\<close>, a space, the lower-cased first
  character of \<open>M\<close> and the rest of \<open>M\<close> unchanged.
\<close>

theorem completion_line_text:
  assumes top: "bs_messages b = ms @ [(Text M st, F)]"
    and line: "line = Text (if F = []
                            then ''Finished '' @ str_lower E (take 1 (strip_control_codes M))
                                   @ drop 1 (strip_control_codes M)
                            else F)
                        (bs_success_style b)"
  shows "filter is_print (added w (snd (snd (exit E b w)))) =
           (if 0 < bs_verbosity b \<and> active b
               \<and> \<not> print_raises E (w\<lparr>stderr := True\<rparr>) (RText line) None
            then [Print True (RText line) None] else [])
       \<and> filter is_print (added w (snd (snd (stop E b w)))) =
           (if 0 < bs_verbosity b \<and> active b
               \<and> \<not> print_raises E (w\<lparr>trace := trace w @ [SpinnerStop], stderr := True\<rparr>) (RText line) None
            then [Print True (RText line) None] else [])
       \<and> (control_free M \<and> control_free F \<and> control_free (str_lower E (take 1 M)) \<longrightarrow>
            plain line = (if F = [] then ''Finished '' @ str_lower E (take 1 M) @ drop 1 M else F))"
proof -
  have fl: "final_line E b (Text M st) F = line"
    using line by (simp add: final_line_text)
  have X: "added w (snd (snd (exit E b w))) =
     (if 0 < bs_verbosity b \<and> active b \<and> print_raises E (w\<lparr>stderr := True\<rparr>) (RText line) None
      then []
      else (if 0 < bs_verbosity b \<and> active b then [Print True (RText line) None] else []) @
           (if bs_tty b \<and> bs_status b \<noteq> None
            then (if active b then [SpinnerStop] else []) @
                 (if ms = [] then [Finalizer]
                  else [SpinnerStart (fst (last ms)) (bs_spinner_style b)])
            else []))"
    by (rule added_trace) (simp only: trace_exit [OF top] fl)
  have S: "added w (snd (snd (stop E b w))) =
     (if active b then [SpinnerStop] else []) @
     (if 0 < bs_verbosity b \<and> active b
        \<and> \<not> print_raises E (w\<lparr>trace := trace w @ [SpinnerStop], stderr := True\<rparr>) (RText line) None
      then [Print True (RText line) None] else [])"
    by (rule added_trace) (simp only: trace_stop [OF top] fl)
  have 1: "filter is_print (added w (snd (snd (exit E b w)))) =
           (if 0 < bs_verbosity b \<and> active b
               \<and> \<not> print_raises E (w\<lparr>stderr := True\<rparr>) (RText line) None
            then [Print True (RText line) None] else [])"
    by (simp add: X)
  have 2: "filter is_print (added w (snd (snd (stop E b w)))) =
           (if 0 < bs_verbosity b \<and> active b
               \<and> \<not> print_raises E (w\<lparr>trace := trace w @ [SpinnerStop], stderr := True\<rparr>) (RText line) None
            then [Print True (RText line) None] else [])"
    by (simp add: S)
  have 3: "plain line = (if F = [] then ''Finished '' @ str_lower E (take 1 M) @ drop 1 M else F)"
    if cf: "control_free M \<and> control_free F \<and> control_free (str_lower E (take 1 M))"
  proof -
    have m: "strip_control_codes M = M" using cf by (simp add: strip_control_free)
    have f: "strip_control_codes F = F" using cf by (simp add: strip_control_free)
    have l: "strip_control_codes (str_lower E (take 1 M)) = str_lower E (take 1 M)"
      using cf by (simp add: strip_control_free)
    have d: "strip_control_codes (drop 1 M) = drop 1 M"
      using cf by (simp add: strip_control_free control_free_drop)
    have h: "strip_control_codes ''Finished '' = ''Finished ''"
      by (simp add: strip_control_codes_def STRIP_CONTROL_CODES_def)
    have a: "strip_control_codes (''Finished '' @ str_lower E (take 1 M) @ drop 1 M)
        = ''Finished '' @ str_lower E (take 1 M) @ drop 1 M"
      by (simp only: strip_control_codes_append h l d)
    have "plain line = strip_control_codes
        (if F = [] then ''Finished '' @ str_lower E (take 1 M) @ drop 1 M else F)"
      by (simp only: line Text_def m rich_text.simps)
    also have "\<dots> = (if F = [] then ''Finished '' @ str_lower E (take 1 M) @ drop 1 M else F)"
      by (simp only: a f if_distrib [of strip_control_codes])
    finally show ?thesis .
  qed
  from 1 2 3 show ?thesis by blast
qed

theorem completion_line_text_witness:
  "run demo_env [Call ''Resolving dependencies'' [], Enter] (demo_status True 1, init_world)
     = (\<lparr>bs_tty = True, bs_verbosity = 1, bs_spinner_style = ''simpleDotsScrolling'',
         bs_waiting_style = Str ''bold magenta'', bs_success_style = Str ''bold cyan'',
         bs_status = Some \<lparr>status_message = \<lparr>plain = ''Resolving dependencies'', style_of = Str ''bold magenta''\<rparr>,
                            spinner = ''simpleDotsScrolling'', is_started = True\<rparr>,
         bs_messages = [(\<lparr>plain = ''Resolving dependencies'', style_of = Str ''bold magenta''\<rparr>, [])]\<rparr>,
        \<lparr>stderr = False,
         trace = [Initializer,
                  SpinnerStart \<lparr>plain = ''Resolving dependencies'', style_of = Str ''bold magenta''\<rparr>
                    ''simpleDotsScrolling'']\<rparr>)
   \<and> control_free ''Resolving dependencies'' \<and> control_free []
   \<and> control_free (str_lower demo_env (take 1 ''Resolving dependencies''))
   \<and> filter is_print (added
        \<lparr>stderr = False,
         trace = [Initializer,
                  SpinnerStart \<lparr>plain = ''Resolving dependencies'', style_of = Str ''bold magenta''\<rparr>
                    ''simpleDotsScrolling'']\<rparr>
        (snd (snd (exit demo_env
        \<lparr>bs_tty = True, bs_verbosity = 1, bs_spinner_style = ''simpleDotsScrolling'',
         bs_waiting_style = Str ''bold magenta'', bs_success_style = Str ''bold cyan'',
         bs_status = Some \<lparr>status_message = \<lparr>plain = ''Resolving dependencies'', style_of = Str ''bold magenta''\<rparr>,
                            spinner = ''simpleDotsScrolling'', is_started = True\<rparr>,
         bs_messages = [(\<lparr>plain = ''Resolving dependencies'', style_of = Str ''bold magenta''\<rparr>, [])]\<rparr>
        \<lparr>stderr = False,
         trace = [Initializer,
                  SpinnerStart \<lparr>plain = ''Resolving dependencies'', style_of = Str ''bold magenta''\<rparr>
                    ''simpleDotsScrolling'']\<rparr>))))
       = [Print True (RText \<lparr>plain = ''Finished resolving dependencies'', style_of = Str ''bold cyan''\<rparr>) None]
   \<and> filter is_print (added
        \<lparr>stderr = False,
         trace = [Initializer,
                  SpinnerStart \<lparr>plain = ''Resolving dependencies'', style_of = Str ''bold magenta''\<rparr>
                    ''simpleDotsScrolling'']\<rparr>
        (snd (snd (stop demo_env
        \<lparr>bs_tty = True, bs_verbosity = 1, bs_spinner_style = ''simpleDotsScrolling'',
         bs_waiting_style = Str ''bold magenta'', bs_success_style = Str ''bold cyan'',
         bs_status = Some \<lparr>status_message = \<lparr>plain = ''Resolving dependencies'', style_of = Str ''bold magenta''\<rparr>,
                            spinner = ''simpleDotsScrolling'', is_started = True\<rparr>,
         bs_messages = [(\<lparr>plain = ''Resolving dependencies'', style_of = Str ''bold magenta''\<rparr>, [])]\<rparr>
        \<lparr>stderr = False,
         trace = [Initializer,
                  SpinnerStart \<lparr>plain = ''Resolving dependencies'', style_of = Str ''bold magenta''\<rparr>
                    ''simpleDotsScrolling'']\<rparr>))))
       = [Print True (RText \<lparr>plain = ''Finished resolving dependencies'', style_of = Str ''bold cyan''\<rparr>) None]"
proof -
  let ?b = "\<lparr>bs_tty = True, bs_verbosity = 1, bs_spinner_style = ''simpleDotsScrolling'',
         bs_waiting_style = Str ''bold magenta'', bs_success_style = Str ''bold cyan'',
         bs_status = Some \<lparr>status_message = \<lparr>plain = ''Resolving dependencies'', style_of = Str ''bold magenta''\<rparr>,
                            spinner = ''simpleDotsScrolling'', is_started = True\<rparr>,
         bs_messages = [(\<lparr>plain = ''Resolving dependencies'', style_of = Str ''bold magenta''\<rparr>, [])]\<rparr>"
  let ?w = "\<lparr>stderr = False,
         trace = [Initializer,
                  SpinnerStart \<lparr>plain = ''Resolving dependencies'', style_of = Str ''bold magenta''\<rparr>
                    ''simpleDotsScrolling'']\<rparr>"
  have r: "run demo_env [Call ''Resolving dependencies'' [], Enter] (demo_status True 1, init_world) = (?b, ?w)"
    by (simp add: model_defs)
  have top: "bs_messages ?b = [] @ [(Text ''Resolving dependencies'' (Str ''bold magenta''), [])]"
    by (simp add: Text_def strip_control_codes_def STRIP_CONTROL_CODES_def)
  have lw: "lower_char CHR ''R'' = CHR ''r''"
    by code_simp
  have sl: "str_lower demo_env = map lower_char"
    by (simp add: demo_env_def)
  have pr: "print_raises demo_env = (\<lambda>w r st. False)"
    by (simp add: demo_env_def)
  have cf: "control_free ''Resolving dependencies'' \<and> control_free []
      \<and> control_free (str_lower demo_env (take 1 ''Resolving dependencies''))"
    by (simp add: control_free_def STRIP_CONTROL_CODES_def sl lw)
  have act: "0 < bs_verbosity ?b \<and> active ?b"
    by (simp add: active_def)
  show ?thesis
    using completion_line_text [OF top refl, of ?w demo_env] r act cf
    by (simp add: pr sl lw Text_def strip_control_codes_def STRIP_CONTROL_CODES_def)
qed

subsection \<open>Nested statuses on a terminal\<close>

text \<open>
  C9. On a terminal, push \<open>A\<close>, push \<open>B\<close>, pop \<open>B\<close> (the renderer not raising on the
  completion line of \<open>B\<close>): the pop returns normally, the live handle is a started
  spinner with the waiting message of \<open>A\<close>, the stack is as it was after pushing \<open>A\<close>,
  and the pop stopped the old spinner and started the new one after the completion line.
  And for any pop on a terminal with a handle present: the handle is cleared exactly
  when the pop returns normally and leaves the stack empty, and so is the call of the
  detach hook (\<^verbatim>\<open>finalizer\<close>).
\<close>

theorem nested_pop_restores:
  assumes tty: "bs_tty b"
  shows "(enter E (call b A FA) w = (e1, b1, w1) \<and> enter E (call b1 B FB) w1 = (e2, b2, w2)
          \<and> exit E b2 w2 = (e3, b3, w3)
          \<and> \<not> (0 < bs_verbosity b
               \<and> print_raises E (w2\<lparr>stderr := True\<rparr>)
                    (RText (final_line E b (Text B (bs_waiting_style b)) FB)) None)
          \<longrightarrow> e3 = None
            \<and> bs_status b3 = Some \<lparr>status_message = (Text A (bs_waiting_style b)),
                                     spinner = bs_spinner_style b, is_started = True\<rparr>
            \<and> bs_messages b3 = bs_messages b @ [((Text A (bs_waiting_style b)), FA)]
            \<and> added w2 w3 =
                (if 0 < bs_verbosity b
                 then [Print True (RText (final_line E b (Text B (bs_waiting_style b)) FB)) None]
                 else []) @
                [SpinnerStop, SpinnerStart (Text A (bs_waiting_style b)) (bs_spinner_style b)])
       \<and> (bs_status b = Some s \<and> exit E b w = (e, b', w')
          \<longrightarrow> ((bs_status b' = None) = (e = None \<and> bs_messages b' = []))
            \<and> ((Finalizer \<in> set (added w w')) = (e = None \<and> bs_messages b' = [])))"
proof (intro conjI impI)
  assume H: "enter E (call b A FA) w = (e1, b1, w1) \<and> enter E (call b1 B FB) w1 = (e2, b2, w2)
          \<and> exit E b2 w2 = (e3, b3, w3)
          \<and> \<not> (0 < bs_verbosity b
               \<and> print_raises E (w2\<lparr>stderr := True\<rparr>)
                    (RText (final_line E b (Text B (bs_waiting_style b)) FB)) None)"
  let ?tA = "(Text A (bs_waiting_style b))"
  let ?tB = "(Text B (bs_waiting_style b))"
  let ?sB = "\<lparr>status_message = ?tB, spinner = bs_spinner_style b, is_started = True\<rparr>"
  have m1: "bs_messages (call b A FA) = bs_messages b @ [(?tA, FA)]" "bs_tty (call b A FA)"
    using tty by (simp_all add: call_def)
  from H have h1: "enter E (call b A FA) w = (e1, b1, w1)" by simp
  have b1: "b1 = (call b A FA)\<lparr>bs_status := Some \<lparr>status_message = ?tA,
      spinner = bs_spinner_style b, is_started = True\<rparr>\<rparr>"
    using h1 unfolding enter_tty [OF m1(2) m1(1)] by (simp add: call_def)
  have m2: "bs_messages (call b1 B FB) = (bs_messages b @ [(?tA, FA)]) @ [(?tB, FB)]" "bs_tty (call b1 B FB)"
    using tty by (simp_all add: call_def b1)
  from H have h2: "enter E (call b1 B FB) w1 = (e2, b2, w2)" by simp
  have b2: "b2 = (call b1 B FB)\<lparr>bs_status := Some ?sB\<rparr>"
    using h2 unfolding enter_tty [OF m2(2) m2(1)] by (simp add: call_def b1)
  have m3: "bs_messages b2 = (bs_messages b @ [(?tA, FA)]) @ [(?tB, FB)]"
    by (simp add: b2 m2)
  have c: "bs_tty b2" "bs_verbosity b2 = bs_verbosity b" "active b2" "bs_status b2 = Some ?sB"
    "bs_spinner_style b2 = bs_spinner_style b" "final_line E b2 ?tB FB = final_line E b ?tB FB"
    using tty by (simp_all add: b2 b1 call_def active_def final_line_def)
  from H have nr: "\<not> (0 < bs_verbosity b \<and> print_raises E (w2\<lparr>stderr := True\<rparr>)
                    (RText (final_line E b ?tB FB)) None)"
    by simp
  from H have x: "e3 = fst (exit E b2 w2)" "b3 = fst (snd (exit E b2 w2))" "w3 = snd (snd (exit E b2 w2))"
    by simp_all
  show "e3 = None"
    using nr by (auto simp add: x fst_exit [OF m3] c)
  show "bs_status b3 = Some \<lparr>status_message = ?tA, spinner = bs_spinner_style b, is_started = True\<rparr>"
    using nr by (auto simp add: x status_exit [OF m3] c)
  show "bs_messages b3 = bs_messages b @ [(?tA, FA)]"
    by (simp add: x messages_exit [OF m3])
  show "added w2 w3 =
                (if 0 < bs_verbosity b
                 then [Print True (RText (final_line E b ?tB FB)) None]
                 else []) @
                [SpinnerStop, SpinnerStart ?tA (bs_spinner_style b)]"
    using nr by (auto simp add: x added_def trace_exit [OF m3] c)
next
  assume H: "bs_status b = Some s \<and> exit E b w = (e, b', w')"
  then have x: "e = fst (exit E b w)" "b' = fst (snd (exit E b w))" "w' = snd (snd (exit E b w))"
    and st: "bs_status b = Some s"
    by simp_all
  have "((bs_status b' = None) = (e = None \<and> bs_messages b' = []))
      \<and> ((Finalizer \<in> set (added w w')) = (e = None \<and> bs_messages b' = []))"
  proof (cases "bs_messages b" rule: rev_cases)
    case Nil
    then show ?thesis using st by (simp add: x exit_def added_def)
  next
    case (snoc ms mf)
    obtain m F where mf: "mf = (m, F)" by (cases mf)
    have top: "bs_messages b = ms @ [(m, F)]" using snoc mf by simp
    show ?thesis
      using st tty
      by (simp add: x added_def fst_exit [OF top] status_exit [OF top] messages_exit [OF top]
          trace_exit [OF top])
  qed
  then show "(bs_status b' = None) = (e = None \<and> bs_messages b' = [])"
    and "(Finalizer \<in> set (added w w')) = (e = None \<and> bs_messages b' = [])"
    by simp_all
qed

theorem nested_pop_restores_witness:
  "bs_tty
     \<lparr>bs_tty = True, bs_verbosity = 1, bs_spinner_style = ''dots'',
          bs_waiting_style = Str ''bold magenta'', bs_success_style = Str ''bold cyan'',
          bs_status = Some \<lparr>status_message = \<lparr>plain = ''Outer'', style_of = Str ''bold magenta''\<rparr>, spinner = ''dots'', is_started = True\<rparr>,
          bs_messages = [(\<lparr>plain = ''Outer'', style_of = Str ''bold magenta''\<rparr>, [])]\<rparr>
   \<and> enter demo_env
         \<lparr>bs_tty = True, bs_verbosity = 1, bs_spinner_style = ''dots'',
          bs_waiting_style = Str ''bold magenta'', bs_success_style = Str ''bold cyan'',
          bs_status = Some \<lparr>status_message = \<lparr>plain = ''Outer'', style_of = Str ''bold magenta''\<rparr>, spinner = ''dots'', is_started = True\<rparr>,
          bs_messages = [(\<lparr>plain = ''Outer'', style_of = Str ''bold magenta''\<rparr>, []), (\<lparr>plain = ''A'', style_of = Str ''bold magenta''\<rparr>, [])]\<rparr>
         \<lparr>stderr = False, trace = [Initializer, SpinnerStart \<lparr>plain = ''Outer'', style_of = Str ''bold magenta''\<rparr> ''dots'']\<rparr>
       = (None,
          \<lparr>bs_tty = True, bs_verbosity = 1, bs_spinner_style = ''dots'',
          bs_waiting_style = Str ''bold magenta'', bs_success_style = Str ''bold cyan'',
          bs_status = Some \<lparr>status_message = \<lparr>plain = ''A'', style_of = Str ''bold magenta''\<rparr>, spinner = ''dots'', is_started = True\<rparr>,
          bs_messages = [(\<lparr>plain = ''Outer'', style_of = Str ''bold magenta''\<rparr>, []), (\<lparr>plain = ''A'', style_of = Str ''bold magenta''\<rparr>, [])]\<rparr>,
          \<lparr>stderr = False, trace = [Initializer, SpinnerStart \<lparr>plain = ''Outer'', style_of = Str ''bold magenta''\<rparr> ''dots'', SpinnerStop, SpinnerStart \<lparr>plain = ''A'', style_of = Str ''bold magenta''\<rparr> ''dots'']\<rparr>)
   \<and> enter demo_env
         \<lparr>bs_tty = True, bs_verbosity = 1, bs_spinner_style = ''dots'',
          bs_waiting_style = Str ''bold magenta'', bs_success_style = Str ''bold cyan'',
          bs_status = Some \<lparr>status_message = \<lparr>plain = ''A'', style_of = Str ''bold magenta''\<rparr>, spinner = ''dots'', is_started = True\<rparr>,
          bs_messages = [(\<lparr>plain = ''Outer'', style_of = Str ''bold magenta''\<rparr>, []), (\<lparr>plain = ''A'', style_of = Str ''bold magenta''\<rparr>, []), (\<lparr>plain = ''B'', style_of = Str ''bold magenta''\<rparr>, ''Done B'')]\<rparr>
         \<lparr>stderr = False, trace = [Initializer, SpinnerStart \<lparr>plain = ''Outer'', style_of = Str ''bold magenta''\<rparr> ''dots'', SpinnerStop, SpinnerStart \<lparr>plain = ''A'', style_of = Str ''bold magenta''\<rparr> ''dots'']\<rparr>
       = (None,
          \<lparr>bs_tty = True, bs_verbosity = 1, bs_spinner_style = ''dots'',
          bs_waiting_style = Str ''bold magenta'', bs_success_style = Str ''bold cyan'',
          bs_status = Some \<lparr>status_message = \<lparr>plain = ''B'', style_of = Str ''bold magenta''\<rparr>, spinner = ''dots'', is_started = True\<rparr>,
          bs_messages = [(\<lparr>plain = ''Outer'', style_of = Str ''bold magenta''\<rparr>, []), (\<lparr>plain = ''A'', style_of = Str ''bold magenta''\<rparr>, []), (\<lparr>plain = ''B'', style_of = Str ''bold magenta''\<rparr>, ''Done B'')]\<rparr>,
          \<lparr>stderr = False, trace = [Initializer, SpinnerStart \<lparr>plain = ''Outer'', style_of = Str ''bold magenta''\<rparr> ''dots'', SpinnerStop, SpinnerStart \<lparr>plain = ''A'', style_of = Str ''bold magenta''\<rparr> ''dots'', SpinnerStop, SpinnerStart \<lparr>plain = ''B'', style_of = Str ''bold magenta''\<rparr> ''dots'']\<rparr>)
   \<and> exit demo_env
         \<lparr>bs_tty = True, bs_verbosity = 1, bs_spinner_style = ''dots'',
          bs_waiting_style = Str ''bold magenta'', bs_success_style = Str ''bold cyan'',
          bs_status = Some \<lparr>status_message = \<lparr>plain = ''B'', style_of = Str ''bold magenta''\<rparr>, spinner = ''dots'', is_started = True\<rparr>,
          bs_messages = [(\<lparr>plain = ''Outer'', style_of = Str ''bold magenta''\<rparr>, []), (\<lparr>plain = ''A'', style_of = Str ''bold magenta''\<rparr>, []), (\<lparr>plain = ''B'', style_of = Str ''bold magenta''\<rparr>, ''Done B'')]\<rparr>
         \<lparr>stderr = False, trace = [Initializer, SpinnerStart \<lparr>plain = ''Outer'', style_of = Str ''bold magenta''\<rparr> ''dots'', SpinnerStop, SpinnerStart \<lparr>plain = ''A'', style_of = Str ''bold magenta''\<rparr> ''dots'', SpinnerStop, SpinnerStart \<lparr>plain = ''B'', style_of = Str ''bold magenta''\<rparr> ''dots'']\<rparr>
       = (None,
          \<lparr>bs_tty = True, bs_verbosity = 1, bs_spinner_style = ''dots'',
          bs_waiting_style = Str ''bold magenta'', bs_success_style = Str ''bold cyan'',
          bs_status = Some \<lparr>status_message = \<lparr>plain = ''A'', style_of = Str ''bold magenta''\<rparr>, spinner = ''dots'', is_started = True\<rparr>,
          bs_messages = [(\<lparr>plain = ''Outer'', style_of = Str ''bold magenta''\<rparr>, []), (\<lparr>plain = ''A'', style_of = Str ''bold magenta''\<rparr>, [])]\<rparr>,
          \<lparr>stderr = False, trace = [Initializer, SpinnerStart \<lparr>plain = ''Outer'', style_of = Str ''bold magenta''\<rparr> ''dots'', SpinnerStop, SpinnerStart \<lparr>plain = ''A'', style_of = Str ''bold magenta''\<rparr> ''dots'', SpinnerStop, SpinnerStart \<lparr>plain = ''B'', style_of = Str ''bold magenta''\<rparr> ''dots'', Print True (RText \<lparr>plain = ''Done B'', style_of = Str ''bold cyan''\<rparr>) None, SpinnerStop, SpinnerStart \<lparr>plain = ''A'', style_of = Str ''bold magenta''\<rparr> ''dots'']\<rparr>)
   \<and> \<not> print_raises demo_env
         (\<lparr>stderr = True, trace = [Initializer, SpinnerStart \<lparr>plain = ''Outer'', style_of = Str ''bold magenta''\<rparr> ''dots'', SpinnerStop, SpinnerStart \<lparr>plain = ''A'', style_of = Str ''bold magenta''\<rparr> ''dots'', SpinnerStop, SpinnerStart \<lparr>plain = ''B'', style_of = Str ''bold magenta''\<rparr> ''dots'']\<rparr>)
         (RText \<lparr>plain = ''Done B'', style_of = Str ''bold cyan''\<rparr>) None
   \<and> added
         \<lparr>stderr = False, trace = [Initializer, SpinnerStart \<lparr>plain = ''Outer'', style_of = Str ''bold magenta''\<rparr> ''dots'', SpinnerStop, SpinnerStart \<lparr>plain = ''A'', style_of = Str ''bold magenta''\<rparr> ''dots'', SpinnerStop, SpinnerStart \<lparr>plain = ''B'', style_of = Str ''bold magenta''\<rparr> ''dots'']\<rparr>
         \<lparr>stderr = False, trace = [Initializer, SpinnerStart \<lparr>plain = ''Outer'', style_of = Str ''bold magenta''\<rparr> ''dots'', SpinnerStop, SpinnerStart \<lparr>plain = ''A'', style_of = Str ''bold magenta''\<rparr> ''dots'', SpinnerStop, SpinnerStart \<lparr>plain = ''B'', style_of = Str ''bold magenta''\<rparr> ''dots'', Print True (RText \<lparr>plain = ''Done B'', style_of = Str ''bold cyan''\<rparr>) None, SpinnerStop, SpinnerStart \<lparr>plain = ''A'', style_of = Str ''bold magenta''\<rparr> ''dots'']\<rparr>
       = [Print True (RText \<lparr>plain = ''Done B'', style_of = Str ''bold cyan''\<rparr>) None,
          SpinnerStop, SpinnerStart \<lparr>plain = ''A'', style_of = Str ''bold magenta''\<rparr> ''dots'']
   \<and> exit demo_env
         \<lparr>bs_tty = True, bs_verbosity = 1, bs_spinner_style = ''dots'',
          bs_waiting_style = Str ''bold magenta'', bs_success_style = Str ''bold cyan'',
          bs_status = Some \<lparr>status_message = \<lparr>plain = ''Outer'', style_of = Str ''bold magenta''\<rparr>, spinner = ''dots'', is_started = True\<rparr>,
          bs_messages = [(\<lparr>plain = ''Outer'', style_of = Str ''bold magenta''\<rparr>, [])]\<rparr>
         \<lparr>stderr = False, trace = [Initializer, SpinnerStart \<lparr>plain = ''Outer'', style_of = Str ''bold magenta''\<rparr> ''dots'']\<rparr>
       = (None,
          \<lparr>bs_tty = True, bs_verbosity = 1, bs_spinner_style = ''dots'',
          bs_waiting_style = Str ''bold magenta'', bs_success_style = Str ''bold cyan'',
          bs_status = None,
          bs_messages = []\<rparr>,
          \<lparr>stderr = False, trace = [Initializer, SpinnerStart \<lparr>plain = ''Outer'', style_of = Str ''bold magenta''\<rparr> ''dots'', Print True (RText \<lparr>plain = ''Finished outer'', style_of = Str ''bold cyan''\<rparr>) None, SpinnerStop, Finalizer]\<rparr>)
   \<and> Finalizer \<in> set (added
         \<lparr>stderr = False, trace = [Initializer, SpinnerStart \<lparr>plain = ''Outer'', style_of = Str ''bold magenta''\<rparr> ''dots'']\<rparr>
         \<lparr>stderr = False, trace = [Initializer, SpinnerStart \<lparr>plain = ''Outer'', style_of = Str ''bold magenta''\<rparr> ''dots'', Print True (RText \<lparr>plain = ''Finished outer'', style_of = Str ''bold cyan''\<rparr>) None, SpinnerStop, Finalizer]\<rparr>)"
proof -
  let ?b0 = "\<lparr>bs_tty = True, bs_verbosity = 1, bs_spinner_style = ''dots'',
          bs_waiting_style = Str ''bold magenta'', bs_success_style = Str ''bold cyan'',
          bs_status = Some \<lparr>status_message = \<lparr>plain = ''Outer'', style_of = Str ''bold magenta''\<rparr>, spinner = ''dots'', is_started = True\<rparr>,
          bs_messages = [(\<lparr>plain = ''Outer'', style_of = Str ''bold magenta''\<rparr>, [])]\<rparr>"
  let ?w0 = "\<lparr>stderr = False, trace = [Initializer, SpinnerStart \<lparr>plain = ''Outer'', style_of = Str ''bold magenta''\<rparr> ''dots'']\<rparr>"
  let ?b1 = "\<lparr>bs_tty = True, bs_verbosity = 1, bs_spinner_style = ''dots'',
          bs_waiting_style = Str ''bold magenta'', bs_success_style = Str ''bold cyan'',
          bs_status = Some \<lparr>status_message = \<lparr>plain = ''A'', style_of = Str ''bold magenta''\<rparr>, spinner = ''dots'', is_started = True\<rparr>,
          bs_messages = [(\<lparr>plain = ''Outer'', style_of = Str ''bold magenta''\<rparr>, []), (\<lparr>plain = ''A'', style_of = Str ''bold magenta''\<rparr>, [])]\<rparr>"
  let ?w1 = "\<lparr>stderr = False, trace = [Initializer, SpinnerStart \<lparr>plain = ''Outer'', style_of = Str ''bold magenta''\<rparr> ''dots'', SpinnerStop, SpinnerStart \<lparr>plain = ''A'', style_of = Str ''bold magenta''\<rparr> ''dots'']\<rparr>"
  let ?b2 = "\<lparr>bs_tty = True, bs_verbosity = 1, bs_spinner_style = ''dots'',
          bs_waiting_style = Str ''bold magenta'', bs_success_style = Str ''bold cyan'',
          bs_status = Some \<lparr>status_message = \<lparr>plain = ''B'', style_of = Str ''bold magenta''\<rparr>, spinner = ''dots'', is_started = True\<rparr>,
          bs_messages = [(\<lparr>plain = ''Outer'', style_of = Str ''bold magenta''\<rparr>, []), (\<lparr>plain = ''A'', style_of = Str ''bold magenta''\<rparr>, []), (\<lparr>plain = ''B'', style_of = Str ''bold magenta''\<rparr>, ''Done B'')]\<rparr>"
  let ?w2 = "\<lparr>stderr = False, trace = [Initializer, SpinnerStart \<lparr>plain = ''Outer'', style_of = Str ''bold magenta''\<rparr> ''dots'', SpinnerStop, SpinnerStart \<lparr>plain = ''A'', style_of = Str ''bold magenta''\<rparr> ''dots'', SpinnerStop, SpinnerStart \<lparr>plain = ''B'', style_of = Str ''bold magenta''\<rparr> ''dots'']\<rparr>"
  let ?b3 = "\<lparr>bs_tty = True, bs_verbosity = 1, bs_spinner_style = ''dots'',
          bs_waiting_style = Str ''bold magenta'', bs_success_style = Str ''bold cyan'',
          bs_status = Some \<lparr>status_message = \<lparr>plain = ''A'', style_of = Str ''bold magenta''\<rparr>, spinner = ''dots'', is_started = True\<rparr>,
          bs_messages = [(\<lparr>plain = ''Outer'', style_of = Str ''bold magenta''\<rparr>, []), (\<lparr>plain = ''A'', style_of = Str ''bold magenta''\<rparr>, [])]\<rparr>"
  let ?w3 = "\<lparr>stderr = False, trace = [Initializer, SpinnerStart \<lparr>plain = ''Outer'', style_of = Str ''bold magenta''\<rparr> ''dots'', SpinnerStop, SpinnerStart \<lparr>plain = ''A'', style_of = Str ''bold magenta''\<rparr> ''dots'', SpinnerStop, SpinnerStart \<lparr>plain = ''B'', style_of = Str ''bold magenta''\<rparr> ''dots'', Print True (RText \<lparr>plain = ''Done B'', style_of = Str ''bold cyan''\<rparr>) None, SpinnerStop, SpinnerStart \<lparr>plain = ''A'', style_of = Str ''bold magenta''\<rparr> ''dots'']\<rparr>"
  let ?be = "\<lparr>bs_tty = True, bs_verbosity = 1, bs_spinner_style = ''dots'',
          bs_waiting_style = Str ''bold magenta'', bs_success_style = Str ''bold cyan'',
          bs_status = None,
          bs_messages = []\<rparr>"
  let ?we = "\<lparr>stderr = False, trace = [Initializer, SpinnerStart \<lparr>plain = ''Outer'', style_of = Str ''bold magenta''\<rparr> ''dots'', Print True (RText \<lparr>plain = ''Finished outer'', style_of = Str ''bold cyan''\<rparr>) None, SpinnerStop, Finalizer]\<rparr>"
  have pr: "print_raises demo_env = (\<lambda>w r st. False)"
    by (simp add: demo_env_def)
  have sl: "str_lower demo_env = map lower_char"
    by (simp add: demo_env_def)
  have lw: "lower_char CHR ''O'' = CHR ''o''"
    by code_simp
  have t: "bs_tty ?b0" by simp
  have h1: "enter demo_env (call ?b0 ''A'' []) ?w0 = (None, ?b1, ?w1)"
    by (simp add: call_def enter_def status_stop_def status_start_def console_status_def Text_def strip_control_codes_def STRIP_CONTROL_CODES_def)
  have h2: "enter demo_env (call ?b1 ''B'' ''Done B'') ?w1 = (None, ?b2, ?w2)"
    by (simp add: call_def enter_def status_stop_def status_start_def console_status_def Text_def strip_control_codes_def STRIP_CONTROL_CODES_def)
  have h3: "exit demo_env ?b2 ?w2 = (None, ?b3, ?w3)"
    by (simp add: exit_def active_def final_line_def BorrowedStatus_output_def console_print_def pr
        status_stop_def status_start_def console_status_def Text_def strip_control_codes_def STRIP_CONTROL_CODES_def)
  have h4: "exit demo_env ?b0 ?w0 = (None, ?be, ?we)"
    by (simp add: exit_def active_def final_line_def finished_def sl lw BorrowedStatus_output_def
        console_print_def pr status_stop_def finalizer_def Text_def strip_control_codes_def STRIP_CONTROL_CODES_def)
  have s0: "bs_status ?b0 = Some \<lparr>status_message = \<lparr>plain = ''Outer'', style_of = Str ''bold magenta''\<rparr>, spinner = ''dots'', is_started = True\<rparr>" by simp
  show ?thesis
    using nested_pop_restores [OF t, of demo_env "''A''" "[]" ?w0 None ?b1 ?w1 "''B''" "''Done B''"
        None ?b2 ?w2 None ?b3 ?w3 "\<lparr>status_message = \<lparr>plain = ''Outer'', style_of = Str ''bold magenta''\<rparr>, spinner = ''dots'', is_started = True\<rparr>" None ?be ?we]
      h1 h2 h3 h4
    by (simp add: call_def pr final_line_def Text_def strip_control_codes_def STRIP_CONTROL_CODES_def)
qed

subsection \<open>The display methods\<close>

lemmas terminal_defs =
  Terminal_init_def getattr_def level_attr_def level_names_def
  display_error_def display_warning_def display_info_def display_success_def display_waiting_def
  display_debug_def output_level_def Terminal_output_def apply_indent_def apply_link_def
  console_print_def init_world_def

lemma Terminal_output_not_ValueError:
  "fst (Terminal_output E w txt st se ind link) \<noteq> Some (ValueError m)"
  by (auto simp: Terminal_output_def apply_link_def console_print_def Let_def split_beta
      split: sum.split option.splits if_splits style.splits)

lemma output_level_not_ValueError:
  "fst (output_level E t w a txt se ind link) \<noteq> Some (ValueError m)"
  by (simp add: output_level_def Terminal_output_not_ValueError split: option.split)

text \<open>
  C6. \<^verbatim>\<open>display_debug\<close> raises \<^verbatim>\<open>ValueError\<close> exactly when its level is outside 1..3, for
  every verbosity; in that case nothing else happens (the world is unchanged), so the
  check precedes the verbosity gate and any output.
\<close>

theorem display_debug_level_check:
  "((\<exists>m. fst (display_debug E t w txt level se ind link) = Some (ValueError m))
      = (level < 1 \<or> 3 < level))
   \<and> (level < 1 \<or> 3 < level \<longrightarrow>
        display_debug E t w txt level se ind link = (Some (ValueError debug_level_message), w))"
proof -
  have out: "display_debug E t w txt level se ind link = (Some (ValueError debug_level_message), w)"
    if "level < 1 \<or> 3 < level"
    using that by (auto simp: display_debug_def)
  have inside: "fst (display_debug E t w txt level se ind link) \<noteq> Some (ValueError m)"
    if "\<not> (level < 1 \<or> 3 < level)" for m
    using that by (simp add: display_debug_def output_level_not_ValueError)
  from out inside show ?thesis by (metis fst_conv)
qed

theorem display_debug_level_check_witness:
  "display_debug demo_env (Terminal_init 3 True) init_world ''x'' 0 True None None
      = (Some (ValueError debug_level_message), init_world)
   \<and> display_debug demo_env (Terminal_init 3 True) init_world ''x'' 4 True None None
      = (Some (ValueError debug_level_message), init_world)
   \<and> display_debug demo_env (Terminal_init 3 True) init_world ''x'' 2 True None None
      = (None, \<lparr>stderr = False, trace = [Print True (RStr ''x'') (Some (Str ''bold''))]\<rparr>)"
proof -
  have pr: "print_raises demo_env = (\<lambda>w r st. False)"
    by (simp add: demo_env_def)
  show ?thesis
    using display_debug_level_check [of demo_env "Terminal_init 3 True" init_world "''x''" 0 True None None]
      display_debug_level_check [of demo_env "Terminal_init 3 True" init_world "''x''" 4 True None None]
    by (simp add: terminal_defs pr)
qed

text \<open>
  C7. The gates themselves are as the claim says (lemma \<open>display_gates\<close> below), but a
  call at or above its floor does not always emit: \<^verbatim>\<open>output\<close> calls
  \<^verbatim>\<open>style.update_link\<close> when a link is given, and the level styles that \<^verbatim>\<open>__init__\<close>
  sets are plain strings, which have no such method. On a new terminal at verbosity 0,
  \<^verbatim>\<open>display_error('x', link='README.md')\<close> is at its floor of \<open>-2\<close>, raises
  \<^verbatim>\<open>AttributeError\<close> and hands nothing to the renderer.
\<close>

theorem display_error_link_raises:
  "- 2 \<le> verbosity (Terminal_init 0 True)
   \<and> display_error E (Terminal_init 0 True) w ''x'' True None (Some ''README.md'')
       = (Some AttributeError, w)"
  by (simp add: Terminal_init_def getattr_def display_error_def output_level_def
      Terminal_output_def apply_link_def)

text \<open>
  What holds for every link: with a renderer that does not raise, \<^verbatim>\<open>display_error\<close> is
  gated at \<open>-2\<close>, \<^verbatim>\<open>display_warning\<close> at \<open>-1\<close>, \<^verbatim>\<open>display_info\<close>, \<^verbatim>\<open>display_success\<close> and
  \<^verbatim>\<open>display_waiting\<close> at \<open>0\<close>, and \<^verbatim>\<open>display_debug\<close> with a level in 1..3 at that level.
\<close>

lemma output_level_prints:
  assumes "\<forall>w' r s. \<not> print_raises E w' r s" and "getattr t a \<noteq> None"
  shows "case apply_link E (getattr t a) link of
           Inl x \<Rightarrow> output_level E t w a msg se ind link = (Some x, w)
         | Inr st \<Rightarrow>
             fst (output_level E t w a msg se ind link) = None
           \<and> trace (snd (output_level E t w a msg se ind link)) =
               trace w @ [Print (se \<or> stderr w) (RStr (apply_indent E msg ind)) st]"
  using assms
  by (auto simp: output_level_def Terminal_output_def console_print_def Let_def split: sum.split)

lemma display_gates:
  assumes quiet_renderer: "\<forall>w' r s. \<not> print_raises E w' r s"
    and styles: "\<forall>n \<in> set level_names. getattr t (level_attr n) \<noteq> None"
  shows "gated E t w (- 2) ''_style_level_error'' msg se ind link (display_error E t w msg se ind link)
       \<and> gated E t w (- 1) ''_style_level_warning'' msg se ind link (display_warning E t w msg se ind link)
       \<and> gated E t w 0 ''_style_level_info'' msg se ind link (display_info E t w msg se ind link)
       \<and> gated E t w 0 ''_style_level_success'' msg se ind link (display_success E t w msg se ind link)
       \<and> gated E t w 0 ''_style_level_waiting'' msg se ind link (display_waiting E t w msg se ind link)
       \<and> (1 \<le> level \<and> level \<le> 3 \<longrightarrow>
            gated E t w level ''_style_level_debug'' msg se ind link
              (display_debug E t w msg level se ind link))"
proof -
  have a: "getattr t ''_style_level_error'' \<noteq> None" "getattr t ''_style_level_warning'' \<noteq> None"
    "getattr t ''_style_level_info'' \<noteq> None" "getattr t ''_style_level_success'' \<noteq> None"
    "getattr t ''_style_level_waiting'' \<noteq> None" "getattr t ''_style_level_debug'' \<noteq> None"
    using styles by (simp_all add: level_names_def level_attr_def)
  note p = output_level_prints [OF quiet_renderer, where t = t and link = link and w = w and msg = msg and se = se and ind = ind]
  show ?thesis
    using p [OF a(1)] p [OF a(2)] p [OF a(3)] p [OF a(4)] p [OF a(5)] p [OF a(6)]
    by (simp add: gated_def display_error_def display_warning_def display_info_def
        display_success_def display_waiting_def display_debug_def split: sum.splits)
qed

subsection \<open>Style overrides\<close>

lemmas style_defs =
  initialize_styles_def Terminal_init_def getattr_def setattr_def level_attr_def custom_attr_def
  truthy_def Style_parse_def str_of_style_def invalid_style_message_def bad_style_error_def
  default_ok_def recognized_def expected_error_def expected_attr_def default_text_def fallback_def

lemma level_attr_inj [simp]: "(level_attr k = level_attr k') = (k = k')"
  by (simp add: level_attr_def)

lemma custom_attr_inj [simp]: "(custom_attr k = custom_attr k') = (k = k')"
  by (simp add: custom_attr_def)

lemma level_custom: "(level_attr k = custom_attr k') = (k' = ''level_'' @ k)"
  by (auto simp: level_attr_def custom_attr_def)

text \<open>One pass of the loop body, when it does not raise.\<close>

lemma loop_step:
  assumes "default_ok E t k"
  shows "initialize_styles_loop E ((k, v) # rest) t errors =
     initialize_styles_loop E rest
       (setattr t (fst (expected_attr E t (k, v))) (snd (expected_attr E t (k, v))))
       (errors @ expected_error E t (k, v))"
proof (cases "recognized E t k")
  case False
  then show ?thesis
    by (simp add: expected_attr_def expected_error_def recognized_def)
next
  case True
  then obtain d where d: "getattr t (level_attr k) = Some (Str d)" "d \<noteq> []" "\<not> isl (style_parse E d)"
    using assms
    by (auto simp: recognized_def truthy_def default_ok_def split: option.splits style.splits)
  then obtain so where so: "style_parse E d = Inr so"
    by (cases "style_parse E d") auto
  show ?thesis
    using True d so
    by (simp add: expected_attr_def expected_error_def recognized_def fallback_def default_text_def
        str_of_style_def Style_parse_def split: sum.split)
qed

lemma getattr_setattr: "getattr (setattr t a v) a' = (if a' = a then Some v else getattr t a')"
  by (simp add: getattr_def setattr_def)

lemma expected_attr_name:
  "fst (expected_attr E t (k, v)) = level_attr k \<or> fst (expected_attr E t (k, v)) = custom_attr k"
  by (simp add: expected_attr_def)

lemma same_view:
  assumes "getattr t1 (level_attr k) = getattr t (level_attr k)"
  shows "default_ok E t1 k = default_ok E t k"
    and "expected_error E t1 (k, v) = expected_error E t (k, v)"
    and "expected_attr E t1 (k, v) = expected_attr E t (k, v)"
proof -
  have r: "recognized E t1 k = recognized E t k"
    using assms by (simp add: recognized_def)
  have d: "default_text E t1 k = default_text E t k"
    using assms by (simp add: default_text_def)
  then have f: "fallback E t1 k = fallback E t k"
    by (simp add: fallback_def)
  show "default_ok E t1 k = default_ok E t k"
    using assms by (simp add: default_ok_def)
  show "expected_error E t1 (k, v) = expected_error E t (k, v)"
    by (simp add: expected_error_def r d split: sum.split)
  show "expected_attr E t1 (k, v) = expected_attr E t (k, v)"
    by (simp add: expected_attr_def r f split: sum.split)
qed

lemma level_not_custom: "\<not> prefix ''level_'' k' \<Longrightarrow> level_attr k \<noteq> custom_attr k'"
  unfolding level_custom by (metis prefixI)

lemma attr_disjoint:
  assumes "k' \<noteq> k" and "\<not> prefix ''level_'' k" and "\<not> prefix ''level_'' k'"
    and "a = level_attr k \<or> a = custom_attr k"
  shows "a \<noteq> level_attr k'" and "a \<noteq> custom_attr k'"
proof -
  have 1: "level_attr k \<noteq> custom_attr k'" using assms(3) by (rule level_not_custom)
  have 2: "custom_attr k \<noteq> level_attr k'" using level_not_custom [OF assms(2), of k'] by simp
  show "a \<noteq> level_attr k'" using assms(1,4) 2 by auto
  show "a \<noteq> custom_attr k'" using assms(1,4) 1 by auto
qed

text \<open>
  The loop over the overrides: every entry is handled as expected from the terminal the
  call started with, because no entry writes an attribute that another entry reads.
\<close>

lemma loop_correct:
  assumes "distinct (map fst styles)"
    and "\<forall>k \<in> set (map fst styles). \<not> prefix ''level_'' k"
    and "\<forall>k \<in> set (map fst styles). default_ok E t k"
  shows "fst (initialize_styles_loop E styles t errors) =
           Inr (errors @ concat (map (expected_error E t) styles))
       \<and> (\<forall>kv \<in> set styles.
            getattr (snd (initialize_styles_loop E styles t errors)) (fst (expected_attr E t kv))
              = Some (snd (expected_attr E t kv)))
       \<and> (\<forall>a. (\<forall>k \<in> set (map fst styles). a \<noteq> level_attr k \<and> a \<noteq> custom_attr k) \<longrightarrow>
            getattr (snd (initialize_styles_loop E styles t errors)) a = getattr t a)"
  using assms
proof (induction styles arbitrary: t errors)
  case Nil
  then show ?case by simp
next
  case (Cons kv rest)
  obtain k v where kv: "kv = (k, v)" by (cases kv)
  let ?a = "fst (expected_attr E t (k, v))"
  let ?t1 = "setattr t ?a (snd (expected_attr E t (k, v)))"
  let ?e1 = "errors @ expected_error E t (k, v)"
  let ?r = "initialize_styles_loop E rest ?t1 ?e1"
  have ok: "default_ok E t k" and nl: "\<not> prefix ''level_'' k"
    using Cons.prems kv by simp_all
  have step: "initialize_styles_loop E (kv # rest) t errors = ?r"
    unfolding kv by (rule loop_step [OF ok])
  have name: "?a = level_attr k \<or> ?a = custom_attr k"
    by (rule expected_attr_name)
  have ne: "k' \<noteq> k" if "k' \<in> set (map fst rest)" for k'
    using that Cons.prems(1) kv by auto
  have np: "\<not> prefix ''level_'' k'" if "k' \<in> set (map fst rest)" for k'
    using that Cons.prems(2) by auto
  have dk: "default_ok E t k'" if "k' \<in> set (map fst rest)" for k'
    using that Cons.prems(3) by auto
  have apart: "?a \<noteq> level_attr k'" "?a \<noteq> custom_attr k'" if "k' \<in> set (map fst rest)" for k'
    using attr_disjoint [OF ne [OF that] nl np [OF that] name] by simp_all
  have view: "getattr ?t1 (level_attr k') = getattr t (level_attr k')"
    if "k' \<in> set (map fst rest)" for k'
    using apart(1) [OF that] by (simp add: getattr_setattr)
  have d: "distinct (map fst rest)"
    using Cons.prems(1) by simp
  have p: "\<forall>k' \<in> set (map fst rest). \<not> prefix ''level_'' k'"
    using np by blast
  have o: "\<forall>k' \<in> set (map fst rest). default_ok E ?t1 k'"
  proof
    fix k' assume m: "k' \<in> set (map fst rest)"
    from same_view(1) [OF view [OF m]] dk [OF m] show "default_ok E ?t1 k'" by simp
  qed
  note IH = Cons.IH [OF d p o, of ?e1]
  note IH1 = IH [THEN conjunct1]
  note IH2 = IH [THEN conjunct2, THEN conjunct1, THEN bspec]
  note IH3 = IH [THEN conjunct2, THEN conjunct2, THEN spec, THEN mp]
  have errs: "map (expected_error E ?t1) rest = map (expected_error E t) rest"
  proof (rule map_cong [OF refl])
    fix x assume "x \<in> set rest"
    then have "fst x \<in> set (map fst rest)" by simp
    from same_view(2) [OF view [OF this], of E "snd x"]
    show "expected_error E ?t1 x = expected_error E t x"
      by simp
  qed
  have head: "getattr (snd ?r) ?a = Some (snd (expected_attr E t (k, v)))"
  proof -
    have "\<forall>k' \<in> set (map fst rest). ?a \<noteq> level_attr k' \<and> ?a \<noteq> custom_attr k'"
      using apart by blast
    then have "getattr (snd ?r) ?a = getattr ?t1 ?a"
      by (rule IH3)
    then show ?thesis by (simp add: getattr_setattr)
  qed
  have tail: "getattr (snd ?r) (fst (expected_attr E t x)) = Some (snd (expected_attr E t x))"
    if "x \<in> set rest" for x
  proof -
    from that have "fst x \<in> set (map fst rest)" by simp
    from same_view(3) [OF view [OF this], of E "snd x"]
    have "expected_attr E ?t1 x = expected_attr E t x"
      by simp
    with IH2 [OF that] show ?thesis by simp
  qed
  have frame: "getattr (snd ?r) a = getattr t a"
    if "\<forall>k' \<in> set (map fst (kv # rest)). a \<noteq> level_attr k' \<and> a \<noteq> custom_attr k'" for a
  proof -
    from that have "\<forall>k' \<in> set (map fst rest). a \<noteq> level_attr k' \<and> a \<noteq> custom_attr k'"
      by simp
    then have "getattr (snd ?r) a = getattr ?t1 a"
      by (rule IH3)
    moreover from that have "a \<noteq> level_attr k \<and> a \<noteq> custom_attr k" by (simp add: kv)
    with name have "a \<noteq> ?a" by auto
    ultimately show ?thesis by (simp add: getattr_setattr)
  qed
  have res: "fst ?r = Inr (errors @ concat (map (expected_error E t) (kv # rest)))"
    using IH1 by (simp add: errs kv)
  have all: "\<forall>x \<in> set (kv # rest).
      getattr (snd ?r) (fst (expected_attr E t x)) = Some (snd (expected_attr E t x))"
    using head tail by (simp add: kv)
  show ?case
    unfolding step
  proof (intro conjI allI impI)
    show "fst ?r = Inr (errors @ concat (map (expected_error E t) (kv # rest)))"
      by (rule res)
    show "\<forall>x \<in> set (kv # rest).
      getattr (snd ?r) (fst (expected_attr E t x)) = Some (snd (expected_attr E t x))"
      by (rule all)
    fix a
    assume "\<forall>k' \<in> set (map fst (kv # rest)). a \<noteq> level_attr k' \<and> a \<noteq> custom_attr k'"
    then show "getattr (snd ?r) a = getattr t a"
      by (rule frame)
  qed
qed

text \<open>
  C8. The \<^verbatim>\<open>except StyleSyntaxError\<close> handler is there so that a bad descriptor for a
  recognized level name does not fail the call, but the call can still raise on one.
  The overrides \<^verbatim>\<open>{'level_error': 'bad', 'error': 'bad'}\<close> on a new terminal: the first
  key has no default, so it is stored verbatim under \<^verbatim>\<open>_style_level_error\<close>, which is the
  attribute the second key reads as its default. The descriptor of \<^verbatim>\<open>error\<close> does not
  parse, and neither does that default, so the unguarded \<^verbatim>\<open>Style.parse(default_level)\<close>
  inside the handler raises \<^verbatim>\<open>StyleSyntaxError\<close> out of the call.
\<close>

theorem initialize_styles_raises:
  "fst (initialize_styles demo_env (Terminal_init 0 True)
          [(''level_error'', ''bad''), (''error'', ''bad'')])
     = Inl (StyleSyntaxError bad_style_error)"
  by (simp add: initialize_styles_def Terminal_init_def getattr_def setattr_def level_attr_def
      custom_attr_def truthy_def demo_env_def Style_parse_def str_of_style_def)

text \<open>
  Where the method does recover. Let the overrides have no key that starts with
  \<^verbatim>\<open>level_\<close>, and let the current default of every recognized key be a descriptor string
  that parses (as the defaults set at construction are). These conditions are
  sufficient, not necessary. Then the call does not raise; it returns, in the
  order of the overrides, one error string \<^verbatim>\<open>Invalid style definition for `name`,
  defaulting to `default`: parse error\<close> for each recognized name whose descriptor does
  not parse, and for that name the parsed default is in effect; a recognized name whose
  descriptor parses gets the parsed descriptor; a key with no default is stored verbatim
  under \<^verbatim>\<open>_style_key\<close>; and the list is empty when every descriptor parses.
\<close>

lemma initialize_styles_recovers:
  assumes "distinct (map fst styles)"
    and "\<forall>k \<in> set (map fst styles). \<not> prefix ''level_'' k"
    and "\<forall>k \<in> set (map fst styles). default_ok E t k"
  shows "fst (initialize_styles E t styles) = Inr (concat (map (expected_error E t) styles))
       \<and> (\<forall>kv \<in> set styles.
            getattr (snd (initialize_styles E t styles)) (fst (expected_attr E t kv))
              = Some (snd (expected_attr E t kv)))
       \<and> ((\<forall>kv \<in> set styles. \<not> isl (style_parse E (snd kv))) \<longrightarrow>
            fst (initialize_styles E t styles) = Inr [])"
proof -
  note L = loop_correct [OF assms, of "[]"]
  have 1: "fst (initialize_styles E t styles) = Inr (concat (map (expected_error E t) styles))"
    using L [THEN conjunct1] by (simp add: initialize_styles_def)
  have 2: "\<forall>kv \<in> set styles.
            getattr (snd (initialize_styles E t styles)) (fst (expected_attr E t kv))
              = Some (snd (expected_attr E t kv))"
    using L [THEN conjunct2, THEN conjunct1] by (simp add: initialize_styles_def)
  have 3: "fst (initialize_styles E t styles) = Inr []"
    if "\<forall>kv \<in> set styles. \<not> isl (style_parse E (snd kv))"
  proof -
    have "expected_error E t kv = []" if "kv \<in> set styles" for kv
    proof -
      obtain k v where kv: "kv = (k, v)" by (cases kv)
      from \<open>\<forall>kv \<in> set styles. \<not> isl (style_parse E (snd kv))\<close> that
      have "\<not> isl (style_parse E v)" by (auto simp: kv)
      then show ?thesis
        by (cases "style_parse E v") (simp_all add: kv expected_error_def)
    qed
    then have "concat (map (expected_error E t) styles) = []" by simp
    with 1 show ?thesis by simp
  qed
  from 1 2 3 show ?thesis by blast
qed

lemma initialize_styles_recovers_example:
  "distinct (map fst [(''error'', ''bad''), (''info'', ''bold green''), (''spinner'', ''dots'')])
   \<and> list_all (\<lambda>k. \<not> prefix ''level_'' k) [''error'', ''info'', ''spinner'']
   \<and> list_all (default_ok demo_env (Terminal_init 0 True)) [''error'', ''info'', ''spinner'']
   \<and> fst (initialize_styles demo_env (Terminal_init 0 True)
             [(''error'', ''bad''), (''info'', ''bold green''), (''spinner'', ''dots'')])
       = Inr [''Invalid style definition for `error`, defaulting to `bold red`: unable to parse 'bad' as color; 'bad' is not a valid color'']
   \<and> getattr (snd (initialize_styles demo_env (Terminal_init 0 True)
             [(''error'', ''bad''), (''info'', ''bold green''), (''spinner'', ''dots'')]))
         ''_style_level_error'' = Some (Obj (Style ''bold red'' None))
   \<and> getattr (snd (initialize_styles demo_env (Terminal_init 0 True)
             [(''error'', ''bad''), (''info'', ''bold green''), (''spinner'', ''dots'')]))
         ''_style_level_info'' = Some (Obj (Style ''bold green'' None))
   \<and> getattr (snd (initialize_styles demo_env (Terminal_init 0 True)
             [(''error'', ''bad''), (''info'', ''bold green''), (''spinner'', ''dots'')]))
         ''_style_spinner'' = Some (Str ''dots'')
   \<and> \<not> isl (style_parse demo_env ''bold green'')
   \<and> fst (initialize_styles demo_env (Terminal_init 0 True) [(''info'', ''bold green'')]) = Inr []"
proof -
  let ?t = "Terminal_init 0 True"
  let ?s = "[(''error'', ''bad''), (''info'', ''bold green''), (''spinner'', ''dots'')]"
  let ?s2 = "[(''info'', ''bold green'')]"
  have sp: "style_parse demo_env = (\<lambda>s. if s = ''bad'' then Inl bad_style_error else Inr (Style s None))"
    by (simp add: demo_env_def)
  have d: "distinct (map fst ?s)" "distinct (map fst ?s2)"
    by simp_all
  have p: "\<forall>k \<in> set (map fst ?s). \<not> prefix ''level_'' k" "\<forall>k \<in> set (map fst ?s2). \<not> prefix ''level_'' k"
    by simp_all
  have o: "\<forall>k \<in> set (map fst ?s). default_ok demo_env ?t k" "\<forall>k \<in> set (map fst ?s2). default_ok demo_env ?t k"
    by (simp_all add: default_ok_def Terminal_init_def getattr_def level_attr_def sp)
  have a: "\<forall>kv \<in> set ?s2. \<not> isl (style_parse demo_env (snd kv))"
    by (simp add: sp)
  show ?thesis
    using initialize_styles_recovers [OF d(1) p(1) o(1)] initialize_styles_recovers [OF d(2) p(2) o(2)] a
    by (simp add: style_defs sp)
qed

end
